theory Spec2Isabelle
  imports Main
begin

section \<open>Errors\<close>

text \<open>
  Every \<^verbatim>\<open>raise\<close> of the serializers and validators is a constructor of its
  own, so that two failures with different messages stay different values.
  Identities (users, recipes, tags, ingredients) are primary keys; Django compares
  and hashes model instances by primary key.
\<close>

datatype relation = Favorite | BuyList

datatype error =
    KeyError string
    \<comment> \<open>\<^verbatim>\<open>d[key]\<close> or \<^verbatim>\<open>d.pop(key)\<close> on a dict without that key\<close>
  | FieldsInvalid "string list"
    \<comment> \<open>the validators declared on the named serializer fields rejected their values\<close>
  | EmptyTags
    \<comment> \<open>serializers.py line 141: the field "tags" must hold at least one element\<close>
  | EmptyIngredients
    \<comment> \<open>serializers.py line 145: the field "ingredients" must not be an empty list\<close>
  | RecipeConflict
    \<comment> \<open>serializers.py line 150: you already have a recipe with this name and tags\<close>
  | DuplicateElement string nat
    \<comment> \<open>validators.py line 8: the field (label) holds the repeated element (elem)\<close>
  | AlreadyAdded relation
    \<comment> \<open>serializers.py line 188: you have already added this recipe to (relation)\<close>
  | AlreadySubscribed nat
    \<comment> \<open>serializers.py line 271: you have already subscribed to the user (author)\<close>
  | SelfSubscription
    \<comment> \<open>serializers.py line 275: you cannot subscribe to yourself\<close>
  | Http404
    \<comment> \<open>\<^verbatim>\<open>get_object_or_404\<close> found no row\<close>
  | IntegrityError
    \<comment> \<open>the database refused a row: a declared constraint would be broken\<close>

section \<open>validators.py\<close>

text \<open>
  \<^verbatim>\<open>validate_unique_for_list(name, data)\<close>: the loop over \<^verbatim>\<open>data\<close> with the
  set \<^verbatim>\<open>temp\<close> of the elements seen so far. Falling off the end of the loop
  returns \<^verbatim>\<open>None\<close>, here \<open>Inr ()\<close>.
\<close>

fun unique_loop :: "string \<Rightarrow> nat list \<Rightarrow> nat set \<Rightarrow> error + unit" where
  "unique_loop name [] temp = Inr ()"
| "unique_loop name (elem # rest) temp =
     (if elem \<in> temp then Inl (DuplicateElement name elem)
      else unique_loop name rest (insert elem temp))"

definition validate_unique_for_list :: "string \<Rightarrow> nat list \<Rightarrow> error + unit" where
  "validate_unique_for_list name data = unique_loop name data {}"

section \<open>recipes/models.py\<close>

text \<open>
  Modelled from the spec: the module \<^verbatim>\<open>recipes/constants.py\<close> that \<^verbatim>\<open>models.py\<close>
  imports these four limits from is not among the sources. The spec bounds
  \<^verbatim>\<open>cooking_time\<close> to [1, 1000] and \<^verbatim>\<open>amount\<close> to [1, 3000], both inclusive, and
  the messages of the validators in \<^verbatim>\<open>models.py\<close> (lines 88, 90, 139, 141) name the
  same four numbers.
\<close>

definition MIN_COOKING_TIME :: int where "MIN_COOKING_TIME = 1"
definition MAX_COOKING_TIME :: int where "MAX_COOKING_TIME = 1000"
definition MIN_AMOUNT_INGREDIENT :: int where "MIN_AMOUNT_INGREDIENT = 1"
definition MAX_AMOUNT_INGREDIENT :: int where "MAX_AMOUNT_INGREDIENT = 3000"

text \<open>
  Django's \<^verbatim>\<open>MaxValueValidator(limit)\<close> rejects a value \<^verbatim>\<open>v\<close> with \<^verbatim>\<open>v > limit\<close>,
  \<^verbatim>\<open>MinValueValidator(limit)\<close> one with \<^verbatim>\<open>v < limit\<close>. A field's validators all
  run; the field is invalid when one of them rejects.
\<close>

definition MaxValueValidator :: "int \<Rightarrow> int \<Rightarrow> bool" where
  "MaxValueValidator limit_value v \<longleftrightarrow> \<not> v > limit_value"

definition MinValueValidator :: "int \<Rightarrow> int \<Rightarrow> bool" where
  "MinValueValidator limit_value v \<longleftrightarrow> \<not> v < limit_value"

definition cooking_time_validators :: "int \<Rightarrow> bool" where
  "cooking_time_validators v \<longleftrightarrow>
     MaxValueValidator MAX_COOKING_TIME v \<and> MinValueValidator MIN_COOKING_TIME v"

definition amount_validators :: "int \<Rightarrow> bool" where
  "amount_validators v \<longleftrightarrow>
     MaxValueValidator MAX_AMOUNT_INGREDIENT v \<and> MinValueValidator MIN_AMOUNT_INGREDIENT v"

text \<open>
  The tables. A row refers to another one by its primary key. The many-to-many field
  \<^verbatim>\<open>Recipe.tag\<close> is its join table of (recipe, tag) pairs; \<^verbatim>\<open>Favorite\<close> and
  \<^verbatim>\<open>BuyList\<close> hold (user, recipe) pairs, \<^verbatim>\<open>Subscription\<close> (user, author) pairs.
  The column \<^verbatim>\<open>pub_date\<close> and the \<^verbatim>\<open>Tag\<close> table are left out: no operation below
  reads them.
\<close>

record ingredient =
  ingredient_id :: nat
  ingredient_name :: string
  measurement_unit :: string

record recipe =
  recipe_id :: nat
  recipe_author :: nat
  recipe_name :: string
  recipe_text :: string
  recipe_cooking_time :: int
  recipe_image :: string

record ingredient_recipe =
  ir_id :: nat
  ir_ingredient :: nat
  ir_recipe :: nat
  ir_amount :: int

record store =
  all_ingredients :: "ingredient list"
  recipes :: "recipe list"
  recipe_tag :: "(nat \<times> nat) list"
  ingredient_recipes :: "ingredient_recipe list"
  favorites :: "(nat \<times> nat) list"
  buylists :: "(nat \<times> nat) list"
  subscriptions :: "(nat \<times> nat) list"
  next_recipe_id :: nat
  next_ir_id :: nat

section \<open>Database operations used by the serializers\<close>

text \<open>
  An operation on the database takes the store and returns its result, an error or a
  value, with the store it leaves behind. \<^verbatim>\<open>@transaction.atomic\<close> runs its body and,
  when the body raises, rolls every write of the body back before the exception
  travels on. The rollback restores the rows of every table; the two counters that
  number new rows are sequences of the database and stay where the body left them.
\<close>

definition rollback :: "store \<Rightarrow> store \<Rightarrow> store" where
  "rollback s s' = s\<lparr>next_recipe_id := next_recipe_id s', next_ir_id := next_ir_id s'\<rparr>"

definition atomic :: "(store \<Rightarrow> (error + 'a) \<times> store) \<Rightarrow> store \<Rightarrow> (error + 'a) \<times> store" where
  "atomic body s =
     (case body s of (Inl e, s') \<Rightarrow> (Inl e, rollback s s') | (Inr v, s') \<Rightarrow> (Inr v, s'))"

text \<open>The rows of all tables, without the counters.\<close>

definition tables ::
  "store \<Rightarrow> ingredient list \<times> recipe list \<times> (nat \<times> nat) list \<times> ingredient_recipe list
     \<times> (nat \<times> nat) list \<times> (nat \<times> nat) list \<times> (nat \<times> nat) list" where
  "tables s = (all_ingredients s, recipes s, recipe_tag s, ingredient_recipes s,
               favorites s, buylists s, subscriptions s)"

text \<open>
  The dict \<^verbatim>\<open>attrs\<close> (later \<^verbatim>\<open>validated_data\<close>) of a recipe submission, after the
  fields have parsed it: a key of the dict is a field here, \<open>None\<close> when the dict has
  no such key. The keys are the sources of
  the serializer's fields: \<^verbatim>\<open>tag\<close> for "tags", \<^verbatim>\<open>recipe_ingredients\<close> for
  "ingredients", whose entries are dicts with the keys \<^verbatim>\<open>ingredient\<close> and \<^verbatim>\<open>amount\<close>.
  Tags and ingredients are the primary keys the related fields resolved.
\<close>

record ingredient_data =
  d_ingredient :: "nat option"
  d_amount :: "int option"

record attrs =
  a_name :: "string option"
  a_text :: "string option"
  a_cooking_time :: "int option"
  a_image :: "string option"
  a_tag :: "nat list option"
  a_recipe_ingredients :: "ingredient_data list option"

text \<open>
  \<^verbatim>\<open>Recipe.objects.create(**validated_data)\<close> with the author the view hands to
  \<^verbatim>\<open>save()\<close>. A string column that gets no value is stored as the empty string;
  \<^verbatim>\<open>cooking_time\<close> has no default and is not nullable, so a missing one is refused.
\<close>

definition or_default :: "'a option \<Rightarrow> 'a \<Rightarrow> 'a" where
  "or_default v d = (case v of None \<Rightarrow> d | Some x \<Rightarrow> x)"

definition Recipe_objects_create ::
  "nat \<Rightarrow> attrs \<Rightarrow> store \<Rightarrow> (error + recipe) \<times> store" where
  "Recipe_objects_create author validated_data s =
     (case a_cooking_time validated_data of
        None \<Rightarrow> (Inl IntegrityError, s)
      | Some ct \<Rightarrow>
          let r = \<lparr>recipe_id = next_recipe_id s, recipe_author = author,
                   recipe_name = or_default (a_name validated_data) [],
                   recipe_text = or_default (a_text validated_data) [],
                   recipe_cooking_time = ct,
                   recipe_image = or_default (a_image validated_data) []\<rparr>
          in (Inr r, s\<lparr>recipes := recipes s @ [r], next_recipe_id := Suc (next_recipe_id s)\<rparr>))"

text \<open>
  \<^verbatim>\<open>instance.save()\<close> of a recipe that was loaded from the table: an UPDATE of the row
  with the instance's primary key, an INSERT when no row has it.
\<close>

definition save :: "recipe \<Rightarrow> store \<Rightarrow> store" where
  "save instance s =
     (if recipe_id instance \<in> recipe_id ` set (recipes s)
      then s\<lparr>recipes := map (\<lambda>r. if recipe_id r = recipe_id instance then instance else r) (recipes s)\<rparr>
      else s\<lparr>recipes := recipes s @ [instance]\<rparr>)"

text \<open>
  \<^verbatim>\<open>recipe.tag.set(tags)\<close>: the rows of the recipe whose tag is not in \<^verbatim>\<open>tags\<close> are
  removed, and one row is added for each tag of \<^verbatim>\<open>tags\<close> the recipe does not have yet.
\<close>

definition tag_set :: "nat \<Rightarrow> nat list \<Rightarrow> store \<Rightarrow> store" where
  "tag_set rid tags s =
     s\<lparr>recipe_tag := [(r, t) \<leftarrow> recipe_tag s. r \<noteq> rid \<or> t \<in> set tags]
          @ [(rid, t). t \<leftarrow> remdups tags, (rid, t) \<notin> set (recipe_tag s)]\<rparr>"

text \<open>
  \<^verbatim>\<open>IngredientRecipe.objects.bulk_create(objs)\<close>, each object given as (ingredient,
  recipe, amount). The table declares the constraint \<^verbatim>\<open>unique_recipe_ingredient\<close> on
  (recipe, ingredient): an insert that would break it is refused as a whole.
\<close>

fun number_rows :: "nat \<Rightarrow> (nat \<times> nat \<times> int) list \<Rightarrow> ingredient_recipe list" where
  "number_rows n [] = []"
| "number_rows n ((i, r, a) # objs) =
     \<lparr>ir_id = n, ir_ingredient = i, ir_recipe = r, ir_amount = a\<rparr> # number_rows (Suc n) objs"

definition bulk_create :: "(nat \<times> nat \<times> int) list \<Rightarrow> store \<Rightarrow> (error + unit) \<times> store" where
  "bulk_create objs s =
     (let stored = map (\<lambda>l. (ir_recipe l, ir_ingredient l)) (ingredient_recipes s);
          keys = map (\<lambda>(i, r, a). (r, i)) objs
      in if distinct keys \<and> filter (\<lambda>k. k \<in> set stored) keys = []
         then (Inr (), s\<lparr>ingredient_recipes := ingredient_recipes s @ number_rows (next_ir_id s) objs,
                         next_ir_id := next_ir_id s + length objs\<rparr>)
         else (Inl IntegrityError, s))"

section \<open>api/serializers.py: RecipeSerializer\<close>

text \<open>
  \<^verbatim>\<open>_create_ingredients(recipe, ingredients_data)\<close>: the list comprehension reads
  \<^verbatim>\<open>ingredient_data['ingredient']\<close>, then \<^verbatim>\<open>ingredient_data['amount']\<close>, of each
  entry in turn, and the objects go to \<^verbatim>\<open>bulk_create\<close>.
\<close>

fun ingredient_objects :: "nat \<Rightarrow> ingredient_data list \<Rightarrow> error + (nat \<times> nat \<times> int) list" where
  "ingredient_objects recipe [] = Inr []"
| "ingredient_objects recipe (d # ds) =
     (case d_ingredient d of
        None \<Rightarrow> Inl (KeyError ''ingredient'')
      | Some i \<Rightarrow>
          (case d_amount d of
             None \<Rightarrow> Inl (KeyError ''amount'')
           | Some a \<Rightarrow>
               (case ingredient_objects recipe ds of
                  Inl e \<Rightarrow> Inl e
                | Inr objs \<Rightarrow> Inr ((i, recipe, a) # objs))))"

definition create_ingredients :: "nat \<Rightarrow> ingredient_data list \<Rightarrow> store \<Rightarrow> (error + unit) \<times> store" where
  "create_ingredients recipe ingredients_data s =
     (case ingredient_objects recipe ingredients_data of
        Inl e \<Rightarrow> (Inl e, s)
      | Inr objs \<Rightarrow> bulk_create objs s)"

text \<open>
  \<^verbatim>\<open>create(validated_data)\<close>, lines 107 to 114. A step that raises hands back the
  store as the step found it, with the writes of the steps before; \<open>atomic\<close> undoes
  them.
\<close>

definition create_body :: "nat \<Rightarrow> attrs \<Rightarrow> store \<Rightarrow> (error + recipe) \<times> store" where
  "create_body author validated_data s =
     (case a_recipe_ingredients validated_data of
        None \<Rightarrow> (Inl (KeyError ''recipe_ingredients''), s)
      | Some ingredients_data \<Rightarrow>
     (case a_tag validated_data of
        None \<Rightarrow> (Inl (KeyError ''tag''), s)
      | Some tags \<Rightarrow>
     (case Recipe_objects_create author validated_data s of
        (Inl e, s1) \<Rightarrow> (Inl e, s1)
      | (Inr recipe, s1) \<Rightarrow>
     (case create_ingredients (recipe_id recipe) ingredients_data s1 of
        (Inl e, s2) \<Rightarrow> (Inl e, s2)
      | (Inr _, s2) \<Rightarrow> (Inr recipe, tag_set (recipe_id recipe) tags s2)))))"

definition create :: "nat \<Rightarrow> attrs \<Rightarrow> store \<Rightarrow> (error + recipe) \<times> store" where
  "create author validated_data = atomic (create_body author validated_data)"

text \<open>
  \<^verbatim>\<open>update(instance, validated_data)\<close>, lines 116 to 129: \<^verbatim>\<open>pop\<close> with the default
  \<^verbatim>\<open>[]\<close>, each scalar read by \<^verbatim>\<open>get\<close> with the instance's value as default.
\<close>

definition update_instance :: "recipe \<Rightarrow> attrs \<Rightarrow> recipe" where
  "update_instance instance validated_data =
     instance\<lparr>recipe_name := or_default (a_name validated_data) (recipe_name instance),
              recipe_text := or_default (a_text validated_data) (recipe_text instance),
              recipe_cooking_time :=
                or_default (a_cooking_time validated_data) (recipe_cooking_time instance),
              recipe_image := or_default (a_image validated_data) (recipe_image instance)\<rparr>"

definition update_body :: "recipe \<Rightarrow> attrs \<Rightarrow> store \<Rightarrow> (error + recipe) \<times> store" where
  "update_body instance validated_data s =
     (let tags = or_default (a_tag validated_data) [];
          ingredients_data = or_default (a_recipe_ingredients validated_data) [];
          instance' = update_instance instance validated_data;
          s1 = save instance' s;
          s2 = tag_set (recipe_id instance') tags s1;
          s3 = s2\<lparr>ingredient_recipes :=
                    [l \<leftarrow> ingredient_recipes s2. ir_recipe l \<noteq> recipe_id instance']\<rparr>
      in case create_ingredients (recipe_id instance') ingredients_data s3 of
           (Inl e, s4) \<Rightarrow> (Inl e, s4)
         | (Inr _, s4) \<Rightarrow> (Inr instance', s4))"

definition update :: "recipe \<Rightarrow> attrs \<Rightarrow> store \<Rightarrow> (error + recipe) \<times> store" where
  "update instance validated_data = atomic (update_body instance validated_data)"

text \<open>
  \<^verbatim>\<open>validate(attrs)\<close>, lines 131 to 156. \<^verbatim>\<open>attrs.get('tag')\<close> is \<^verbatim>\<open>None\<close> for a
  missing key, \<^verbatim>\<open>attrs['name']\<close> and \<^verbatim>\<open>attrs['recipe_ingredients']\<close> raise on one,
  and so does \<^verbatim>\<open>ingred['ingredient']\<close> in the comprehension that follows. The two
  labels are the strings \<^verbatim>\<open>'Tags'\<close> and \<^verbatim>\<open>'Ingredients'\<close> of the source in Russian,
  as the bytes of their UTF-8 encoding. The query of line 148 joins the recipes with
  the rows of their many-to-many table.
\<close>

definition label_tags :: string where
  "label_tags = [CHR 0xD0, CHR 0xA2, CHR 0xD0, CHR 0xB5, CHR 0xD0, CHR 0xB3, CHR 0xD0, CHR 0xB8]"

definition label_ingredients :: string where
  "label_ingredients =
     [CHR 0xD0, CHR 0x98, CHR 0xD0, CHR 0xBD, CHR 0xD0, CHR 0xB3, CHR 0xD1, CHR 0x80,
      CHR 0xD0, CHR 0xB5, CHR 0xD0, CHR 0xB4, CHR 0xD0, CHR 0xB8, CHR 0xD0, CHR 0xB5,
      CHR 0xD0, CHR 0xBD, CHR 0xD1, CHR 0x82, CHR 0xD1, CHR 0x8B]"

fun ingredients_obj :: "ingredient_data list \<Rightarrow> error + nat list" where
  "ingredients_obj [] = Inr []"
| "ingredients_obj (ingred # rest) =
     (case d_ingredient ingred of
        None \<Rightarrow> Inl (KeyError ''ingredient'')
      | Some i \<Rightarrow> (case ingredients_obj rest of Inl e \<Rightarrow> Inl e | Inr objs \<Rightarrow> Inr (i # objs)))"

definition recipe_exists :: "store \<Rightarrow> string \<Rightarrow> nat \<Rightarrow> nat list \<Rightarrow> bool" where
  "recipe_exists s name author tags \<longleftrightarrow>
     [r. r \<leftarrow> recipes s, (rid, t) \<leftarrow> recipe_tag s,
         recipe_name r = name, recipe_author r = author, rid = recipe_id r, t \<in> set tags] \<noteq> []"

definition validate :: "store \<Rightarrow> nat \<Rightarrow> string \<Rightarrow> attrs \<Rightarrow> error + attrs" where
  "validate s author method attrs =
     (let tags = a_tag attrs in
      case a_name attrs of
        None \<Rightarrow> Inl (KeyError ''name'')
      | Some name \<Rightarrow>
     (case a_recipe_ingredients attrs of
        None \<Rightarrow> Inl (KeyError ''recipe_ingredients'')
      | Some ingredients \<Rightarrow>
     (case ingredients_obj ingredients of
        Inl e \<Rightarrow> Inl e
      | Inr objs \<Rightarrow>
     (case tags of
        None \<Rightarrow> Inl EmptyTags
      | Some [] \<Rightarrow> Inl EmptyTags
      | Some (t # ts) \<Rightarrow>
          if ingredients = [] then Inl EmptyIngredients
          else if method = ''POST'' \<and> recipe_exists s name author (t # ts) then Inl RecipeConflict
          else (case validate_unique_for_list label_tags (t # ts) of
                  Inl e \<Rightarrow> Inl e
                | Inr _ \<Rightarrow>
               (case validate_unique_for_list label_ingredients objs of
                  Inl e \<Rightarrow> Inl e
                | Inr _ \<Rightarrow> Inr attrs))))))"

text \<open>
  Before \<^verbatim>\<open>validate\<close> the serializer runs each writable field on its value and
  collects the names of the fields that failed, in the order of \<^verbatim>\<open>Meta.fields\<close>:
  tags, ingredients, name, image, text, cooking_time. A field fails when the
  submission has no value for it, unless the serializer is partial, as it is for a
  PATCH request; the same holds for the keys \<^verbatim>\<open>id\<close> and \<^verbatim>\<open>amount\<close> of an entry of
  "ingredients". A value that is there goes through the validators the model
  declares for the field, the two bounds of \<^verbatim>\<open>models.py\<close>. The submission is taken
  after parsing: its strings, its image and its primary keys are values of their
  types, so the checks of the parsers themselves (a length, the image format, the
  lookup of a primary key) are outside the model.
\<close>

definition required :: "bool \<Rightarrow> 'a option \<Rightarrow> string \<Rightarrow> string list" where
  "required partial v field =
     (case v of None \<Rightarrow> if partial then [] else [field] | Some _ \<Rightarrow> [])"

definition entry_rejected :: "bool \<Rightarrow> ingredient_data \<Rightarrow> bool" where
  "entry_rejected partial d \<longleftrightarrow>
     (case d_ingredient d of None \<Rightarrow> \<not> partial | Some _ \<Rightarrow> False) \<or>
     (case d_amount d of None \<Rightarrow> \<not> partial | Some a \<Rightarrow> \<not> amount_validators a)"

definition field_errors :: "bool \<Rightarrow> attrs \<Rightarrow> string list" where
  "field_errors partial attrs =
     required partial (a_tag attrs) ''tags''
     @ (case a_recipe_ingredients attrs of
          None \<Rightarrow> if partial then [] else [''ingredients'']
        | Some ds \<Rightarrow> if filter (entry_rejected partial) ds \<noteq> [] then [''ingredients''] else [])
     @ required partial (a_name attrs) ''name''
     @ required partial (a_image attrs) ''image''
     @ required partial (a_text attrs) ''text''
     @ (case a_cooking_time attrs of
          None \<Rightarrow> if partial then [] else [''cooking_time'']
        | Some v \<Rightarrow> if cooking_time_validators v then [] else [''cooking_time''])"

definition run_validation :: "store \<Rightarrow> nat \<Rightarrow> string \<Rightarrow> bool \<Rightarrow> attrs \<Rightarrow> error + attrs" where
  "run_validation s user method partial attrs =
     (case field_errors partial attrs of
        [] \<Rightarrow> validate s user method attrs
      | f # fs \<Rightarrow> Inl (FieldsInvalid (f # fs)))"

text \<open>
  A serializer saves only after \<^verbatim>\<open>is_valid()\<close> has run without errors, so the two
  operations on recipes are the validation followed by \<^verbatim>\<open>create\<close> or \<^verbatim>\<open>update\<close>. A
  recipe is created by a POST request, with a serializer that is not partial; it is
  updated by a PATCH request, with a partial one, since \<^verbatim>\<open>IsAuthorOrReadOnly\<close>
  (permissions.py, line 8) refuses PUT.
\<close>

definition create_recipe :: "nat \<Rightarrow> attrs \<Rightarrow> store \<Rightarrow> (error + recipe) \<times> store" where
  "create_recipe user attrs s =
     (case run_validation s user ''POST'' False attrs of
        Inl e \<Rightarrow> (Inl e, s)
      | Inr validated_data \<Rightarrow> create user validated_data s)"

definition update_recipe :: "nat \<Rightarrow> recipe \<Rightarrow> attrs \<Rightarrow> store \<Rightarrow> (error + recipe) \<times> store" where
  "update_recipe user instance attrs s =
     (case run_validation s user ''PATCH'' True attrs of
        Inl e \<Rightarrow> (Inl e, s)
      | Inr validated_data \<Rightarrow> update instance validated_data s)"

section \<open>api/serializers.py: favorites, the cart and subscriptions\<close>

text \<open>
  \<^verbatim>\<open>BaseAddRecipeSerializer\<close> with \<^verbatim>\<open>Meta.model\<close> one of \<^verbatim>\<open>Favorite\<close> and
  \<^verbatim>\<open>BuyList\<close>. \<^verbatim>\<open>validate\<close> looks for a row of the pair; \<^verbatim>\<open>create\<close> fetches the
  recipe or raises 404, then inserts the pair. Both tables declare a unique constraint
  on (user, recipe) (models.py, lines 185 and 195).
\<close>

definition objects :: "relation \<Rightarrow> store \<Rightarrow> (nat \<times> nat) list" where
  "objects model s = (case model of Favorite \<Rightarrow> favorites s | BuyList \<Rightarrow> buylists s)"

definition objects_create :: "relation \<Rightarrow> nat \<times> nat \<Rightarrow> store \<Rightarrow> (error + nat \<times> nat) \<times> store" where
  "objects_create model row s =
     (if row \<in> set (objects model s) then (Inl IntegrityError, s)
      else (Inr row,
            case model of
              Favorite \<Rightarrow> s\<lparr>favorites := favorites s @ [row]\<rparr>
            | BuyList \<Rightarrow> s\<lparr>buylists := buylists s @ [row]\<rparr>))"

definition add_recipe_validate :: "relation \<Rightarrow> nat \<Rightarrow> nat \<Rightarrow> store \<Rightarrow> error + unit" where
  "add_recipe_validate model user rid s =
     (if [row \<leftarrow> objects model s. row = (user, rid)] \<noteq> [] then Inl (AlreadyAdded model)
      else Inr ())"

definition add_recipe_create :: "relation \<Rightarrow> nat \<Rightarrow> nat \<Rightarrow> store \<Rightarrow> (error + nat \<times> nat) \<times> store" where
  "add_recipe_create model user rid s =
     (case [r \<leftarrow> recipes s. recipe_id r = rid] of
        [] \<Rightarrow> (Inl Http404, s)
      | recipe # _ \<Rightarrow> objects_create model (user, recipe_id recipe) s)"

definition add_recipe :: "relation \<Rightarrow> nat \<Rightarrow> nat \<Rightarrow> store \<Rightarrow> (error + nat \<times> nat) \<times> store" where
  "add_recipe model user rid s =
     (case add_recipe_validate model user rid s of
        Inl e \<Rightarrow> (Inl e, s)
      | Inr _ \<Rightarrow> add_recipe_create model user rid s)"

text \<open>
  \<^verbatim>\<open>SubscriptionSerializer.validate\<close>, lines 265 to 277, and \<^verbatim>\<open>create\<close>, lines 279 to
  283, with \<^verbatim>\<open>user\<close> and \<^verbatim>\<open>author\<close> taken from the context. The checks are in the
  order of the source. The model \<^verbatim>\<open>users.models.Subscription\<close> is not among the
  sources; its table is a list of (user, author) pairs, and an insert adds a row.
\<close>

definition subscription_validate :: "nat \<Rightarrow> nat \<Rightarrow> store \<Rightarrow> error + unit" where
  "subscription_validate user author s =
     (if [row \<leftarrow> subscriptions s. row = (user, author)] \<noteq> [] then Inl (AlreadySubscribed author)
      else if user = author then Inl SelfSubscription
      else Inr ())"

definition subscription_create :: "nat \<Rightarrow> nat \<Rightarrow> store \<Rightarrow> (error + nat) \<times> store" where
  "subscription_create user author s =
     (Inr author, s\<lparr>subscriptions := subscriptions s @ [(user, author)]\<rparr>)"

definition subscribe :: "nat \<Rightarrow> nat \<Rightarrow> store \<Rightarrow> (error + nat) \<times> store" where
  "subscribe user author s =
     (case subscription_validate user author s of
        Inl e \<Rightarrow> (Inl e, s)
      | Inr _ \<Rightarrow> subscription_create user author s)"

section \<open>api/utils.py\<close>

text \<open>
  Text is the byte string of its UTF-8 encoding. \<^verbatim>\<open>str\<close> of an integer is its decimal
  numeral, with a minus sign for a negative one; \<^verbatim>\<open>sep.join(lines)\<close> puts the
  separator between the lines.
\<close>

fun str_nat :: "nat \<Rightarrow> string" where
  "str_nat n =
     (if n < 10 then [''0123456789'' ! n]
      else str_nat (n div 10) @ [''0123456789'' ! (n mod 10)])"

declare str_nat.simps [simp del]

definition str_int :: "int \<Rightarrow> string" where
  "str_int i = (if i < 0 then CHR ''-'' # str_nat (nat (- i)) else str_nat (nat i))"

fun join :: "string \<Rightarrow> string list \<Rightarrow> string" where
  "join sep [] = []"
| "join sep [x] = x"
| "join sep (x # y # ys) = x @ sep @ join sep (y # ys)"

text \<open>
  The query of \<^verbatim>\<open>get_ingredients_for_download\<close>. The filter
  \<^verbatim>\<open>recipe__buylist__user=user\<close> joins each ingredient line with its recipe and with
  the cart rows of that recipe, and keeps the rows of \<^verbatim>\<open>user\<close>; the names in
  \<^verbatim>\<open>values(...)\<close> join the ingredient. \<^verbatim>\<open>values(...).annotate(amount=Sum('amount'))\<close>
  groups the joined rows by the two named columns and sums \<^verbatim>\<open>amount\<close> in each group.
  The ordering of \<^verbatim>\<open>IngredientRecipe.Meta\<close> takes no part in the grouping, as in Django
  3.1 and later (\<^verbatim>\<open>violation_error_message\<close> in \<^verbatim>\<open>models.py\<close> needs Django 4.1).
  The database fixes the order of the groups; here it is the order in which
  \<open>remdups\<close> keeps the keys.
\<close>

definition joined_rows :: "nat \<Rightarrow> store \<Rightarrow> ((string \<times> string) \<times> int) list" where
  "joined_rows user s =
     [((ingredient_name i, measurement_unit i), ir_amount l).
        l \<leftarrow> ingredient_recipes s,
        r \<leftarrow> recipes s, recipe_id r = ir_recipe l,
        (u, rid) \<leftarrow> buylists s, rid = recipe_id r, u = user,
        i \<leftarrow> all_ingredients s, ingredient_id i = ir_ingredient l]"

definition values_annotate_sum :: "('k \<times> int) list \<Rightarrow> ('k \<times> int) list" where
  "values_annotate_sum rows =
     [(k, sum_list [a. (k', a) \<leftarrow> rows, k' = k]). k \<leftarrow> remdups (map fst rows)]"

text \<open>
  The header is the literal of line 12, \<^verbatim>\<open>'Shopping list:'\<close> in Russian (fifteen
  characters, the last one the colon); the dash of line 16 is U+2014.
\<close>

definition header :: string where
  "header =
     [CHR 0xD0, CHR 0xA1, CHR 0xD0, CHR 0xBF, CHR 0xD0, CHR 0xB8, CHR 0xD1, CHR 0x81,
      CHR 0xD0, CHR 0xBE, CHR 0xD0, CHR 0xBA, CHR '' '', CHR 0xD0, CHR 0xBF, CHR 0xD0,
      CHR 0xBE, CHR 0xD0, CHR 0xBA, CHR 0xD1, CHR 0x83, CHR 0xD0, CHR 0xBF, CHR 0xD0,
      CHR 0xBE, CHR 0xD0, CHR 0xBA, CHR '':'']"

definition em_dash :: string where
  "em_dash = [CHR 0xE2, CHR 0x80, CHR 0x94]"

definition line :: "(string \<times> string) \<times> int \<Rightarrow> string" where
  "line ingredient =
     (case ingredient of ((name, unit), amount) \<Rightarrow>
        name @ '' '' @ ''('' @ unit @ '')'' @ '' '' @ em_dash @ '' '' @ str_int amount)"

definition get_ingredients_for_download :: "nat \<Rightarrow> store \<Rightarrow> string" where
  "get_ingredients_for_download user s =
     (let ingredients = values_annotate_sum (joined_rows user s);
          ingredient_list = [header] @ map line ingredients
      in join ''\<newline>'' ingredient_list)"

section \<open>Queries used to state the properties\<close>

text \<open>
  \<^verbatim>\<open>recipe.tag.all()\<close> and \<^verbatim>\<open>recipe.recipe_ingredients.all()\<close>: the tags and the
  ingredient lines of the recipe with the given primary key.
\<close>

definition recipe_tags :: "store \<Rightarrow> nat \<Rightarrow> nat list" where
  "recipe_tags s rid = [t. (r, t) \<leftarrow> recipe_tag s, r = rid]"

definition recipe_ingredients :: "store \<Rightarrow> nat \<Rightarrow> ingredient_recipe list" where
  "recipe_ingredients s rid = [l \<leftarrow> ingredient_recipes s. ir_recipe l = rid]"

text \<open>Invariant 1 of the spec: every stored recipe has a tag and an ingredient line.\<close>

definition every_recipe_complete :: "store \<Rightarrow> bool" where
  "every_recipe_complete s \<longleftrightarrow>
     list_all (\<lambda>r. recipe_tags s (recipe_id r) \<noteq> [] \<and> recipe_ingredients s (recipe_id r) \<noteq> [])
       (recipes s)"

text \<open>
  Invariant 6 of the spec: no subscription has the same user and author. And the
  validation of a subscription in the spec's words, to compare the serializer with:
  it rejects user = author, then checks for an existing subscription.
\<close>

definition no_self_subscription :: "store \<Rightarrow> bool" where
  "no_self_subscription s \<longleftrightarrow> [(u, a) \<leftarrow> subscriptions s. u = a] = []"

definition spec_validate_subscription :: "nat \<Rightarrow> nat \<Rightarrow> store \<Rightarrow> error + unit" where
  "spec_validate_subscription user author s =
     (if user = author then Inl SelfSubscription
      else if [row \<leftarrow> subscriptions s. row = (user, author)] \<noteq> [] then Inl (AlreadySubscribed author)
      else Inr ())"

text \<open>
  What the schema of \<^verbatim>\<open>models.py\<close> guarantees of the tables the shopping list reads:
  primary keys of recipes and ingredients are unique, a cart holds a (user, recipe)
  pair once (\<^verbatim>\<open>unique_user_and_buylist_recipe\<close>), and the two foreign keys of an
  ingredient line point at rows that exist.
\<close>

definition database_constraints :: "store \<Rightarrow> bool" where
  "database_constraints s \<longleftrightarrow>
     distinct (map recipe_id (recipes s)) \<and>
     distinct (map ingredient_id (all_ingredients s)) \<and>
     distinct (buylists s) \<and>
     list_all (\<lambda>l. ir_recipe l \<in> recipe_id ` set (recipes s) \<and>
                    ir_ingredient l \<in> ingredient_id ` set (all_ingredients s))
       (ingredient_recipes s)"

text \<open>
  Steps 1 and 2 of the spec's shopping list aggregator, in the spec's words, to compare
  the query with: every ingredient line that belongs to a recipe present in the user's
  cart, and the group of a line, the name and the measurement unit of its ingredient.
\<close>

definition spec_cart_lines :: "nat \<Rightarrow> store \<Rightarrow> ingredient_recipe list" where
  "spec_cart_lines user s = [l \<leftarrow> ingredient_recipes s. (user, ir_recipe l) \<in> set (buylists s)]"

definition spec_group_key :: "store \<Rightarrow> ingredient_recipe \<Rightarrow> string \<times> string" where
  "spec_group_key s l =
     (case [i \<leftarrow> all_ingredients s. ingredient_id i = ir_ingredient l] of
        [] \<Rightarrow> ([], [])
      | i # _ \<Rightarrow> (ingredient_name i, measurement_unit i))"

section \<open>Example stores\<close>

text \<open>
  User 3 has the recipes 1 and 2 of author 7 in the cart; recipe 1 takes 10 g of salt,
  recipe 2 takes 5 g. User 4 has an empty cart.
\<close>

definition recipe_one :: recipe where
  "recipe_one =
     \<lparr>recipe_id = 1, recipe_author = 7, recipe_name = ''R1'', recipe_text = ''first'',
      recipe_cooking_time = 5, recipe_image = ''r1.png''\<rparr>"

definition salt_store :: store where
  "salt_store =
     \<lparr>all_ingredients =
        [\<lparr>ingredient_id = 1, ingredient_name = ''Salt'', measurement_unit = ''g''\<rparr>],
      recipes =
        [recipe_one,
         \<lparr>recipe_id = 2, recipe_author = 7, recipe_name = ''R2'', recipe_text = ''second'',
          recipe_cooking_time = 8, recipe_image = ''r2.png''\<rparr>],
      recipe_tag = [(1, 1), (2, 1)],
      ingredient_recipes =
        [\<lparr>ir_id = 1, ir_ingredient = 1, ir_recipe = 1, ir_amount = 10\<rparr>,
         \<lparr>ir_id = 2, ir_ingredient = 1, ir_recipe = 2, ir_amount = 5\<rparr>],
      favorites = [], buylists = [(3, 1), (3, 2)], subscriptions = [],
      next_recipe_id = 3, next_ir_id = 3\<rparr>"

text \<open>A submission that is valid against \<open>salt_store\<close> for every user.\<close>

definition soup_attrs :: attrs where
  "soup_attrs =
     \<lparr>a_name = Some ''Soup'', a_text = Some ''boil'', a_cooking_time = Some 30,
      a_image = Some ''soup.png'', a_tag = Some [1, 2],
      a_recipe_ingredients = Some [\<lparr>d_ingredient = Some 1, d_amount = Some 3\<rparr>]\<rparr>"

section \<open>Lemmas: the validators\<close>

lemma unique_loop_ok:
  "distinct data \<Longrightarrow> set data \<inter> temp = {} \<Longrightarrow> unique_loop name data temp = Inr ()"
  by (induction data arbitrary: temp) auto

lemma unique_loop_first_repeat:
  "i < length data \<Longrightarrow> distinct (take i data) \<Longrightarrow> set (take i data) \<inter> temp = {}
   \<Longrightarrow> data ! i \<in> set (take i data) \<union> temp
   \<Longrightarrow> unique_loop name data temp = Inl (DuplicateElement name (data ! i))"
proof (induction data arbitrary: temp i)
  case Nil
  then show ?case by simp
next
  case (Cons x xs)
  show ?case
  proof (cases i)
    case 0
    with Cons.prems show ?thesis by simp
  next
    case (Suc j)
    with Cons.prems have fresh: "x \<notin> temp" and j: "j < length xs"
      and d: "distinct (take j xs)" and disj: "set (take j xs) \<inter> insert x temp = {}"
      and hit: "xs ! j \<in> set (take j xs) \<union> insert x temp"
      by auto
    from Cons.IH [OF j d disj hit] fresh Suc show ?thesis by simp
  qed
qed

lemma not_distinct_first_repeat:
  "\<not> distinct xs \<Longrightarrow> \<exists>i < length xs. distinct (take i xs) \<and> xs ! i \<in> set (take i xs)"
proof (induction xs rule: rev_induct)
  case Nil
  then show ?case by simp
next
  case (snoc x xs)
  show ?case
  proof (cases "distinct xs")
    case True
    with snoc.prems have "x \<in> set xs" by simp
    with True have "distinct (take (length xs) (xs @ [x]))
        \<and> (xs @ [x]) ! length xs \<in> set (take (length xs) (xs @ [x]))"
      by simp
    then show ?thesis by (intro exI [of _ "length xs"]) simp
  next
    case False
    from snoc.IH [OF False] obtain i where i: "i < length xs"
      and "distinct (take i xs)" and "xs ! i \<in> set (take i xs)" by blast
    then have "distinct (take i (xs @ [x])) \<and> (xs @ [x]) ! i \<in> set (take i (xs @ [x]))"
      by (simp add: nth_append)
    with i show ?thesis by (intro exI [of _ i]) simp
  qed
qed

lemma validate_unique_for_list_Inr_iff:
  "validate_unique_for_list name data = Inr () \<longleftrightarrow> distinct data"
proof
  assume ok: "validate_unique_for_list name data = Inr ()"
  show "distinct data"
  proof (rule ccontr)
    assume "\<not> distinct data"
    from not_distinct_first_repeat [OF this] obtain i where "i < length data"
      "distinct (take i data)" "data ! i \<in> set (take i data)" by blast
    then have "unique_loop name data {} = Inl (DuplicateElement name (data ! i))"
      by (intro unique_loop_first_repeat) simp_all
    with ok show False by (simp add: validate_unique_for_list_def)
  qed
next
  assume "distinct data"
  then show "validate_unique_for_list name data = Inr ()"
    by (simp add: validate_unique_for_list_def unique_loop_ok)
qed

lemma unique_loop_error:
  "unique_loop name data temp = Inl e \<Longrightarrow> \<exists>x. e = DuplicateElement name x"
  by (induction data arbitrary: temp) (auto split: if_splits)

lemma ingredients_obj_error:
  "ingredients_obj ds = Inl e \<Longrightarrow> e = KeyError ''ingredient''"
  by (induction ds) (auto split: option.splits sum.splits)

lemma ingredients_obj_Inr:
  "ingredients_obj ds = Inr objs \<Longrightarrow> map d_ingredient ds = map Some objs"
  by (induction ds arbitrary: objs) (auto split: option.splits sum.splits)

lemma recipe_exists_iff:
  "recipe_exists s name author tags \<longleftrightarrow>
     (\<exists>r \<in> set (recipes s). recipe_name r = name \<and> recipe_author r = author \<and>
        (\<exists>t \<in> set tags. (recipe_id r, t) \<in> set (recipe_tag s)))"
  unfolding recipe_exists_def set_empty [symmetric]
  by (auto split: if_splits)

lemma validate_Inr:
  assumes "validate s user method attrs = Inr vd"
  shows "vd = attrs \<and> (\<exists>name tags ds objs. a_name attrs = Some name \<and> a_tag attrs = Some tags \<and>
           tags \<noteq> [] \<and> distinct tags \<and> a_recipe_ingredients attrs = Some ds \<and> ds \<noteq> [] \<and>
           ingredients_obj ds = Inr objs \<and> distinct objs \<and>
           \<not> (method = ''POST'' \<and> recipe_exists s name user tags))"
  using assms
  by (auto simp: validate_def Let_def validate_unique_for_list_Inr_iff
      split: option.splits sum.splits list.splits if_splits)

lemma atomic_Inl: "atomic body s = (Inl e, s') \<Longrightarrow> tables s' = tables s"
  by (auto simp: atomic_def rollback_def tables_def split: prod.splits sum.splits)

lemma atomic_Inr: "atomic body s = (Inr v, s') \<longleftrightarrow> body s = (Inr v, s')"
  by (auto simp: atomic_def split: prod.splits sum.splits)

lemma create_recipe_Inl: "create_recipe user attrs s = (Inl e, s') \<Longrightarrow> tables s' = tables s"
  by (auto simp: create_recipe_def create_def dest: atomic_Inl split: sum.splits)

lemma update_recipe_Inl: "update_recipe user instance attrs s = (Inl e, s') \<Longrightarrow> tables s' = tables s"
  by (auto simp: update_recipe_def update_def dest: atomic_Inl split: sum.splits)

lemma cooking_time_validators_iff: "cooking_time_validators v \<longleftrightarrow> 1 \<le> v \<and> v \<le> 1000"
  by (auto simp: cooking_time_validators_def MaxValueValidator_def MinValueValidator_def
      MAX_COOKING_TIME_def MIN_COOKING_TIME_def)

lemma amount_validators_iff: "amount_validators a \<longleftrightarrow> 1 \<le> a \<and> a \<le> 3000"
  by (auto simp: amount_validators_def MaxValueValidator_def MinValueValidator_def
      MAX_AMOUNT_INGREDIENT_def MIN_AMOUNT_INGREDIENT_def)

lemma create_recipe_field_errors:
  "field_errors False attrs \<noteq> [] \<Longrightarrow>
     create_recipe user attrs s = (Inl (FieldsInvalid (field_errors False attrs)), s)"
  by (auto simp: create_recipe_def run_validation_def split: list.splits)

lemma soup_cooking_time:
  "1 \<le> v \<Longrightarrow> v \<le> 1000 \<Longrightarrow> \<exists>r s'. create_recipe 7 (soup_attrs\<lparr>a_cooking_time := Some v\<rparr>) salt_store = (Inr r, s') \<and> recipe_cooking_time r = v"
  apply (simp add: create_recipe_def run_validation_def field_errors_def soup_attrs_def or_default_def entry_rejected_def required_def amount_validators_iff cooking_time_validators_iff
   validate_def recipe_exists_def salt_store_def validate_unique_for_list_def create_def atomic_def create_body_def Recipe_objects_create_def create_ingredients_def bulk_create_def tag_set_def Let_def recipe_ingredients_def recipe_one_def)
  done

lemma soup_amount:
  "1 \<le> a \<Longrightarrow> a \<le> 3000 \<Longrightarrow> \<exists>r s'. create_recipe 7 (soup_attrs\<lparr>a_recipe_ingredients := Some [\<lparr>d_ingredient = Some 1, d_amount = Some a\<rparr>]\<rparr>) salt_store = (Inr r, s') \<and> map ir_amount (recipe_ingredients s' (recipe_id r)) = [a]"
  apply (simp add: create_recipe_def run_validation_def field_errors_def soup_attrs_def or_default_def entry_rejected_def required_def amount_validators_iff cooking_time_validators_iff
   validate_def recipe_exists_def salt_store_def validate_unique_for_list_def create_def atomic_def create_body_def Recipe_objects_create_def create_ingredients_def bulk_create_def tag_set_def Let_def recipe_ingredients_def recipe_one_def)
  done

section \<open>Lemmas: the recipe operations\<close>

lemma set_recipe_tags: "set (recipe_tags s rid) = {t. (rid, t) \<in> set (recipe_tag s)}"
  by (auto simp: recipe_tags_def split: if_splits)

lemma set_recipe_ingredients:
  "set (recipe_ingredients s rid) = {l \<in> set (ingredient_recipes s). ir_recipe l = rid}"
  by (auto simp: recipe_ingredients_def)

lemma tag_set_rows:
  "set (recipe_tag (tag_set rid tags s)) =
     {(r, t). (r, t) \<in> set (recipe_tag s) \<and> r \<noteq> rid} \<union> {(rid, t) | t. t \<in> set tags}"
  by (auto simp: tag_set_def split: if_splits)

lemma tag_set_frame [simp]:
  "recipes (tag_set rid tags s) = recipes s"
  "ingredient_recipes (tag_set rid tags s) = ingredient_recipes s"
  "all_ingredients (tag_set rid tags s) = all_ingredients s"
  "favorites (tag_set rid tags s) = favorites s"
  "buylists (tag_set rid tags s) = buylists s"
  "subscriptions (tag_set rid tags s) = subscriptions s"
  by (simp_all add: tag_set_def)

lemma ingredient_objects_Inr:
  "ingredient_objects rid ds = Inr objs \<Longrightarrow>
     length objs = length ds \<and> (\<forall>obj \<in> set objs. fst (snd obj) = rid)"
  by (induction ds arbitrary: objs) (auto split: option.splits sum.splits)

lemma ingredient_objects_error:
  "ingredient_objects rid ds = Inl e \<Longrightarrow> e = KeyError ''ingredient'' \<or> e = KeyError ''amount''"
  by (induction ds) (auto split: option.splits sum.splits)

lemma ir_recipe_number_rows: "map ir_recipe (number_rows n objs) = map (\<lambda>obj. fst (snd obj)) objs"
  by (induction n objs rule: number_rows.induct) auto

lemma create_ingredients_Inr:
  assumes "create_ingredients rid ds s = (Inr u, s')"
  shows "\<exists>new. ingredient_recipes s' = ingredient_recipes s @ new \<and> length new = length ds \<and>
           (\<forall>l \<in> set new. ir_recipe l = rid) \<and>
           recipes s' = recipes s \<and> recipe_tag s' = recipe_tag s \<and>
           all_ingredients s' = all_ingredients s \<and> favorites s' = favorites s \<and>
           buylists s' = buylists s \<and> subscriptions s' = subscriptions s"
proof -
  from assms obtain objs where objs: "ingredient_objects rid ds = Inr objs"
    and bc: "bulk_create objs s = (Inr u, s')"
    by (auto simp: create_ingredients_def split: sum.splits)
  let ?new = "number_rows (next_ir_id s) objs"
  from bc have s': "s' = s\<lparr>ingredient_recipes := ingredient_recipes s @ ?new,
                         next_ir_id := next_ir_id s + length objs\<rparr>"
    by (auto simp: bulk_create_def Let_def split: if_splits)
  from ingredient_objects_Inr [OF objs]
  have len: "length objs = length ds" and all: "\<forall>obj \<in> set objs. fst (snd obj) = rid" by auto
  have "length (map ir_recipe ?new) = length ds" by (simp add: ir_recipe_number_rows len)
  then have l: "length ?new = length ds" by simp
  have "set (map ir_recipe ?new) \<subseteq> {rid}" using all by (auto simp: ir_recipe_number_rows)
  then have r: "\<forall>l \<in> set ?new. ir_recipe l = rid" by auto
  from s' l r show ?thesis by (intro exI [of _ ?new]) simp
qed

lemma create_ingredients_error:
  "create_ingredients rid ds s = (Inl e, s') \<Longrightarrow>
     e = KeyError ''ingredient'' \<or> e = KeyError ''amount'' \<or> e = IntegrityError"
  by (auto simp: create_ingredients_def bulk_create_def Let_def
      dest: ingredient_objects_error split: sum.splits if_splits)

lemma create_body_error:
  "create_body user vd s = (Inl e, s') \<Longrightarrow> e \<noteq> RecipeConflict"
  by (auto simp: create_body_def Recipe_objects_create_def Let_def
      dest!: create_ingredients_error split: option.splits sum.splits prod.splits)

lemma update_body_error:
  "update_body instance vd s = (Inl e, s') \<Longrightarrow> e \<noteq> RecipeConflict"
  by (auto simp: update_body_def Let_def
      dest!: create_ingredients_error split: option.splits sum.splits prod.splits)

lemma create_body_Inr:
  assumes "create_body user vd s = (Inr r, s')"
  shows "\<exists>ds tags new. a_recipe_ingredients vd = Some ds \<and> a_tag vd = Some tags \<and>
           recipes s' = recipes s @ [r] \<and>
           ingredient_recipes s' = ingredient_recipes s @ new \<and> length new = length ds \<and>
           (\<forall>l \<in> set new. ir_recipe l = recipe_id r) \<and>
           set (recipe_tag s') = {(x, t). (x, t) \<in> set (recipe_tag s) \<and> x \<noteq> recipe_id r}
                                  \<union> {(recipe_id r, t) | t. t \<in> set tags}"
proof -
  from assms obtain ds tags s1 s2 u where ds: "a_recipe_ingredients vd = Some ds"
    and tags: "a_tag vd = Some tags"
    and c: "Recipe_objects_create user vd s = (Inr r, s1)"
    and ci: "create_ingredients (recipe_id r) ds s1 = (Inr u, s2)"
    and s': "s' = tag_set (recipe_id r) tags s2"
    by (auto simp: create_body_def split: option.splits sum.splits prod.splits)
  from c have s1: "recipes s1 = recipes s @ [r]" "recipe_tag s1 = recipe_tag s"
    "ingredient_recipes s1 = ingredient_recipes s"
    by (auto simp: Recipe_objects_create_def Let_def split: option.splits)
  from create_ingredients_Inr [OF ci] obtain new where
    "ingredient_recipes s2 = ingredient_recipes s1 @ new" "length new = length ds"
    "\<forall>l \<in> set new. ir_recipe l = recipe_id r" "recipes s2 = recipes s1"
    "recipe_tag s2 = recipe_tag s1" by blast
  with s1 s' ds tags show ?thesis
    by (intro exI [of _ ds] exI [of _ tags] exI [of _ new]) (simp add: tag_set_rows)
qed

lemma set_recipes_save:
  "recipe_id ` set (recipes (save instance s)) = insert (recipe_id instance) (recipe_id ` set (recipes s))"
  by (auto simp: save_def image_iff)

lemma save_frame [simp]:
  "recipe_tag (save instance s) = recipe_tag s"
  "ingredient_recipes (save instance s) = ingredient_recipes s"
  by (simp_all add: save_def)

lemma update_body_Inr:
  assumes "update_body instance vd s = (Inr r, s')"
  shows "r = update_instance instance vd \<and> recipes s' = recipes (save r s) \<and>
         (\<exists>new. ingredient_recipes s' =
                  [l \<leftarrow> ingredient_recipes s. ir_recipe l \<noteq> recipe_id r] @ new \<and>
                length new = length (or_default (a_recipe_ingredients vd) []) \<and>
                (\<forall>l \<in> set new. ir_recipe l = recipe_id r)) \<and>
         set (recipe_tag s') = {(x, t). (x, t) \<in> set (recipe_tag s) \<and> x \<noteq> recipe_id r}
                 \<union> {(recipe_id r, t) | t. t \<in> set (or_default (a_tag vd) [])}"
proof -
  let ?r = "update_instance instance vd"
  let ?s2 = "tag_set (recipe_id ?r) (or_default (a_tag vd) []) (save ?r s)"
  let ?s3 = "?s2\<lparr>ingredient_recipes := [l \<leftarrow> ingredient_recipes ?s2. ir_recipe l \<noteq> recipe_id ?r]\<rparr>"
  from assms obtain u where r: "r = ?r"
    and ci: "create_ingredients (recipe_id ?r) (or_default (a_recipe_ingredients vd) []) ?s3 = (Inr u, s')"
    by (auto simp: update_body_def Let_def split: sum.splits prod.splits)
  from create_ingredients_Inr [OF ci] obtain new where
    "ingredient_recipes s' = ingredient_recipes ?s3 @ new"
    "length new = length (or_default (a_recipe_ingredients vd) [])"
    "\<forall>l \<in> set new. ir_recipe l = recipe_id ?r" "recipes s' = recipes ?s3"
    "recipe_tag s' = recipe_tag ?s3" by blast
  with r show ?thesis
    by (auto simp: tag_set_rows intro!: exI [of _ new])
qed

lemma recipe_tags_nonempty: "recipe_tags s rid \<noteq> [] \<longleftrightarrow> (\<exists>t. (rid, t) \<in> set (recipe_tag s))"
  unfolding set_empty [symmetric] set_recipe_tags by auto

lemma recipe_ingredients_nonempty:
  "recipe_ingredients s rid \<noteq> [] \<longleftrightarrow> (\<exists>l \<in> set (ingredient_recipes s). ir_recipe l = rid)"
  unfolding set_empty [symmetric] set_recipe_ingredients by auto

lemma run_validation_Inr:
  "run_validation s user method partial attrs = Inr vd \<Longrightarrow>
     field_errors partial attrs = [] \<and> validate s user method attrs = Inr vd"
  by (auto simp: run_validation_def split: list.splits)

lemma field_errors_full:
  assumes "field_errors False attrs = []"
  shows "\<exists>name tags ds. a_name attrs = Some name \<and> a_tag attrs = Some tags \<and>
           a_recipe_ingredients attrs = Some ds \<and> (\<forall>d \<in> set ds. d_ingredient d \<noteq> None)"
proof -
  from assms have "a_name attrs \<noteq> None" "a_tag attrs \<noteq> None"
    by (auto simp: field_errors_def required_def split: option.splits)
  moreover from assms obtain ds where ds: "a_recipe_ingredients attrs = Some ds"
    "filter (entry_rejected False) ds = []"
    by (cases "a_recipe_ingredients attrs") (auto simp: field_errors_def split: if_splits)
  moreover from ds(2) have "\<forall>d \<in> set ds. d_ingredient d \<noteq> None"
    by (auto simp: filter_empty_conv entry_rejected_def split: option.splits)
  ultimately show ?thesis by auto
qed

lemma create_recipe_Inr:
  assumes "create_recipe user attrs s = (Inr r, s')"
  shows "\<exists>ds tags new. a_recipe_ingredients attrs = Some ds \<and> ds \<noteq> [] \<and>
           a_tag attrs = Some tags \<and> tags \<noteq> [] \<and>
           recipes s' = recipes s @ [r] \<and>
           ingredient_recipes s' = ingredient_recipes s @ new \<and> new \<noteq> [] \<and>
           (\<forall>l \<in> set new. ir_recipe l = recipe_id r) \<and>
           set (recipe_tag s') = {(x, t). (x, t) \<in> set (recipe_tag s) \<and> x \<noteq> recipe_id r}
                                  \<union> {(recipe_id r, t) | t. t \<in> set tags}"
proof -
  from assms obtain vd where v: "run_validation s user ''POST'' False attrs = Inr vd"
    and c: "create_body user vd s = (Inr r, s')"
    by (auto simp: create_recipe_def create_def atomic_Inr split: sum.splits)
  from run_validation_Inr [OF v] validate_Inr [of s user "''POST''" attrs vd]
  obtain tags ds where vd: "vd = attrs" and t: "a_tag attrs = Some tags" "tags \<noteq> []"
    and d: "a_recipe_ingredients attrs = Some ds" "ds \<noteq> []" by blast
  from create_body_Inr [OF c] vd t d obtain new where
    "recipes s' = recipes s @ [r]" "ingredient_recipes s' = ingredient_recipes s @ new"
    "length new = length ds" "\<forall>l \<in> set new. ir_recipe l = recipe_id r"
    "set (recipe_tag s') = {(x, t). (x, t) \<in> set (recipe_tag s) \<and> x \<noteq> recipe_id r}
                                  \<union> {(recipe_id r, t) | t. t \<in> set tags}" by auto
  with t d show ?thesis
    by (intro exI [of _ ds] exI [of _ tags] exI [of _ new]) auto
qed

lemma update_recipe_Inr:
  assumes "update_recipe user instance attrs s = (Inr r, s')"
  shows "\<exists>ds tags new. a_recipe_ingredients attrs = Some ds \<and> ds \<noteq> [] \<and>
           a_tag attrs = Some tags \<and> tags \<noteq> [] \<and>
           r = update_instance instance attrs \<and> recipes s' = recipes (save r s) \<and>
           ingredient_recipes s' = [l \<leftarrow> ingredient_recipes s. ir_recipe l \<noteq> recipe_id r] @ new \<and>
           new \<noteq> [] \<and> (\<forall>l \<in> set new. ir_recipe l = recipe_id r) \<and>
           set (recipe_tag s') = {(x, t). (x, t) \<in> set (recipe_tag s) \<and> x \<noteq> recipe_id r}
                                  \<union> {(recipe_id r, t) | t. t \<in> set tags}"
proof -
  from assms obtain vd where v: "run_validation s user ''PATCH'' True attrs = Inr vd"
    and c: "update_body instance vd s = (Inr r, s')"
    by (auto simp: update_recipe_def update_def atomic_Inr split: sum.splits)
  from run_validation_Inr [OF v] validate_Inr [of s user "''PATCH''" attrs vd]
  obtain tags ds where vd: "vd = attrs" and t: "a_tag attrs = Some tags" "tags \<noteq> []"
    and d: "a_recipe_ingredients attrs = Some ds" "ds \<noteq> []" by blast
  from update_body_Inr [OF c] vd t d obtain new where
    "r = update_instance instance attrs" "recipes s' = recipes (save r s)"
    "ingredient_recipes s' = [l \<leftarrow> ingredient_recipes s. ir_recipe l \<noteq> recipe_id r] @ new"
    "length new = length ds" "\<forall>l \<in> set new. ir_recipe l = recipe_id r"
    "set (recipe_tag s') = {(x, t). (x, t) \<in> set (recipe_tag s) \<and> x \<noteq> recipe_id r}
                                  \<union> {(recipe_id r, t) | t. t \<in> set tags}"
    by (auto simp: or_default_def)
  with t d show ?thesis
    by (intro exI [of _ ds] exI [of _ tags] exI [of _ new]) auto
qed

lemma create_recipe_complete:
  assumes "create_recipe user attrs s = (Inr r, s')"
  shows "recipe_tags s' (recipe_id r) \<noteq> [] \<and> recipe_ingredients s' (recipe_id r) \<noteq> []"
    and "every_recipe_complete s \<Longrightarrow> every_recipe_complete s'"
proof -
  from create_recipe_Inr [OF assms] obtain tags new where t: "tags \<noteq> []"
    and rs: "recipes s' = recipes s @ [r]"
    and ls: "ingredient_recipes s' = ingredient_recipes s @ new" and n: "new \<noteq> []"
    and nr: "\<forall>l \<in> set new. ir_recipe l = recipe_id r"
    and ts: "set (recipe_tag s') = {(x, t). (x, t) \<in> set (recipe_tag s) \<and> x \<noteq> recipe_id r}
                                  \<union> {(recipe_id r, t) | t. t \<in> set tags}" by blast
  from t obtain t0 where t0: "t0 \<in> set tags" by (cases tags) auto
  from n obtain l0 where l0: "l0 \<in> set new" by (cases new) auto
  from t0 ts have a: "recipe_tags s' (recipe_id r) \<noteq> []"
    unfolding recipe_tags_nonempty by auto
  from l0 nr ls have b: "recipe_ingredients s' (recipe_id r) \<noteq> []"
    unfolding recipe_ingredients_nonempty by auto
  from a b show "recipe_tags s' (recipe_id r) \<noteq> [] \<and> recipe_ingredients s' (recipe_id r) \<noteq> []" ..
  assume inv: "every_recipe_complete s"
  show "every_recipe_complete s'"
    unfolding every_recipe_complete_def list_all_iff
  proof
    fix x assume x: "x \<in> set (recipes s')"
    show "recipe_tags s' (recipe_id x) \<noteq> [] \<and> recipe_ingredients s' (recipe_id x) \<noteq> []"
    proof (cases "recipe_id x = recipe_id r")
      case True
      with a b show ?thesis by simp
    next
      case False
      with x rs have "x \<in> set (recipes s)" by auto
      with inv have "recipe_tags s (recipe_id x) \<noteq> []" "recipe_ingredients s (recipe_id x) \<noteq> []"
        by (auto simp: every_recipe_complete_def list_all_iff)
      with False ts ls show ?thesis
        unfolding recipe_tags_nonempty recipe_ingredients_nonempty by auto
    qed
  qed
qed

lemma update_recipe_complete:
  assumes "update_recipe user instance attrs s = (Inr r, s')"
  shows "recipe_tags s' (recipe_id r) \<noteq> [] \<and> recipe_ingredients s' (recipe_id r) \<noteq> []"
    and "every_recipe_complete s \<Longrightarrow> every_recipe_complete s'"
proof -
  from update_recipe_Inr [OF assms] obtain tags new where t: "tags \<noteq> []"
    and rs: "recipes s' = recipes (save r s)"
    and ls: "ingredient_recipes s' = [l \<leftarrow> ingredient_recipes s. ir_recipe l \<noteq> recipe_id r] @ new"
    and n: "new \<noteq> []"
    and nr: "\<forall>l \<in> set new. ir_recipe l = recipe_id r"
    and ts: "set (recipe_tag s') = {(x, t). (x, t) \<in> set (recipe_tag s) \<and> x \<noteq> recipe_id r}
                                  \<union> {(recipe_id r, t) | t. t \<in> set tags}" by blast
  from t obtain t0 where t0: "t0 \<in> set tags" by (cases tags) auto
  from n obtain l0 where l0: "l0 \<in> set new" by (cases new) auto
  from t0 ts have a: "recipe_tags s' (recipe_id r) \<noteq> []"
    unfolding recipe_tags_nonempty by auto
  from l0 nr ls have b: "recipe_ingredients s' (recipe_id r) \<noteq> []"
    unfolding recipe_ingredients_nonempty by auto
  from a b show "recipe_tags s' (recipe_id r) \<noteq> [] \<and> recipe_ingredients s' (recipe_id r) \<noteq> []" ..
  assume inv: "every_recipe_complete s"
  show "every_recipe_complete s'"
    unfolding every_recipe_complete_def list_all_iff
  proof
    fix x assume x: "x \<in> set (recipes s')"
    show "recipe_tags s' (recipe_id x) \<noteq> [] \<and> recipe_ingredients s' (recipe_id x) \<noteq> []"
    proof (cases "recipe_id x = recipe_id r")
      case True
      with a b show ?thesis by simp
    next
      case False
      from x rs have "recipe_id x \<in> recipe_id ` set (recipes (save r s))" by auto
      with False obtain y where y: "y \<in> set (recipes s)" "recipe_id y = recipe_id x"
        unfolding set_recipes_save by auto
      with inv have "recipe_tags s (recipe_id x) \<noteq> []" "recipe_ingredients s (recipe_id x) \<noteq> []"
        by (auto simp: every_recipe_complete_def list_all_iff)
      with False ts ls show ?thesis
        unfolding recipe_tags_nonempty recipe_ingredients_nonempty by auto
    qed
  qed
qed

lemma validate_empty_rejected:
  assumes "a_tag attrs = None \<or> a_tag attrs = Some [] \<or>
           a_recipe_ingredients attrs = None \<or> a_recipe_ingredients attrs = Some []"
  shows "\<exists>e. run_validation s user method partial attrs = Inl e"
proof (cases "run_validation s user method partial attrs")
  case (Inl e)
  then show ?thesis by blast
next
  case (Inr vd)
  from run_validation_Inr [OF Inr] validate_Inr [of s user "method" attrs vd] assms
  show ?thesis by auto
qed

lemma validate_duplicates_rejected:
  assumes "(\<exists>tags. a_tag attrs = Some tags \<and> \<not> distinct tags) \<or>
           (\<exists>ds. a_recipe_ingredients attrs = Some ds \<and> \<not> distinct (map d_ingredient ds))"
  shows "\<exists>e. run_validation s user method partial attrs = Inl e"
proof (cases "run_validation s user method partial attrs")
  case (Inl e)
  then show ?thesis by blast
next
  case (Inr vd)
  from run_validation_Inr [OF Inr] validate_Inr [of s user "method" attrs vd]
  obtain tags ds objs where "a_tag attrs = Some tags" "distinct tags"
    "a_recipe_ingredients attrs = Some ds" "ingredients_obj ds = Inr objs" "distinct objs"
    by blast
  moreover from this ingredients_obj_Inr [of ds objs] have "distinct (map d_ingredient ds)"
    by (simp add: distinct_map)
  ultimately show ?thesis using assms by auto
qed

lemma ingredients_obj_Inr_iff:
  "(\<exists>objs. ingredients_obj ds = Inr objs) \<longleftrightarrow> (\<forall>d \<in> set ds. d_ingredient d \<noteq> None)"
  by (induction ds) (auto split: option.splits sum.splits)

lemma validate_unique_for_list_error:
  "validate_unique_for_list name data = Inl e \<Longrightarrow> e \<noteq> RecipeConflict"
  by (auto simp: validate_unique_for_list_def dest: unique_loop_error)

lemma validate_conflict_iff:
  "validate s user method attrs = Inl RecipeConflict \<longleftrightarrow>
     method = ''POST'' \<and>
     (\<exists>name tags ds. a_name attrs = Some name \<and> a_tag attrs = Some tags \<and>
        a_recipe_ingredients attrs = Some ds \<and> ds \<noteq> [] \<and>
        (\<forall>d \<in> set ds. d_ingredient d \<noteq> None) \<and> recipe_exists s name user tags)"
proof (cases "a_name attrs")
  case None
  then show ?thesis by (simp add: validate_def)
next
  case name: (Some name)
  show ?thesis
  proof (cases "a_recipe_ingredients attrs")
    case None
    with name show ?thesis by (simp add: validate_def)
  next
    case ds: (Some ds)
    show ?thesis
    proof (cases "ingredients_obj ds")
      case (Inl e)
      with ingredients_obj_Inr_iff [of ds] have "\<not> (\<forall>d \<in> set ds. d_ingredient d \<noteq> None)" by auto
      with name ds Inl ingredients_obj_error [OF Inl] show ?thesis by (simp add: validate_def)
    next
      case (Inr objs)
      with ingredients_obj_Inr_iff [of ds] have all: "\<forall>d \<in> set ds. d_ingredient d \<noteq> None" by blast
      show ?thesis
      proof (cases "a_tag attrs")
        case None
        with name ds Inr show ?thesis by (simp add: validate_def)
      next
        case (Some tags)
        show ?thesis
        proof (cases tags)
          case Nil
          with name ds Inr Some show ?thesis by (simp add: validate_def recipe_exists_iff)
        next
          case (Cons t ts)
          with name ds Inr Some all show ?thesis
            by (auto simp: validate_def dest: validate_unique_for_list_error split: sum.splits)
        qed
      qed
    qed
  qed
qed

lemma create_recipe_conflict_iff:
  "fst (create_recipe user attrs s) = Inl RecipeConflict \<longleftrightarrow>
     field_errors False attrs = [] \<and> validate s user ''POST'' attrs = Inl RecipeConflict"
proof (cases "field_errors False attrs")
  case Nil
  show ?thesis
  proof (cases "validate s user ''POST'' attrs")
    case (Inl e)
    with Nil show ?thesis by (simp add: create_recipe_def run_validation_def)
  next
    case (Inr vd)
    obtain res s' where r: "create_body user vd s = (res, s')" by (cases "create_body user vd s")
    with create_body_error [of user vd s _ s'] have "fst (atomic (create_body user vd) s) \<noteq> Inl RecipeConflict"
      by (cases res) (auto simp: atomic_def)
    with Nil Inr show ?thesis by (simp add: create_recipe_def run_validation_def create_def)
  qed
next
  case (Cons f fs)
  then show ?thesis by (simp add: create_recipe_def run_validation_def)
qed

lemma update_recipe_no_conflict:
  "fst (update_recipe user instance attrs s) \<noteq> Inl RecipeConflict"
proof (cases "field_errors True attrs")
  case Nil
  show ?thesis
  proof (cases "validate s user ''PATCH'' attrs")
    case (Inl e)
    with validate_conflict_iff [of s user "''PATCH''" attrs] have "e \<noteq> RecipeConflict" by auto
    with Nil Inl show ?thesis by (simp add: update_recipe_def run_validation_def)
  next
    case (Inr vd)
    obtain res s' where r: "update_body instance vd s = (res, s')" by (cases "update_body instance vd s")
    with update_body_error [of "instance" vd s _ s'] have "fst (atomic (update_body instance vd) s) \<noteq> Inl RecipeConflict"
      by (cases res) (auto simp: atomic_def)
    with Nil Inr show ?thesis by (simp add: update_recipe_def run_validation_def update_def)
  qed
next
  case (Cons f fs)
  then show ?thesis by (simp add: update_recipe_def run_validation_def)
qed

lemma validate_patch_store_independent:
  "run_validation s user ''PATCH'' True attrs = run_validation s0 user ''PATCH'' True attrs"
  by (simp add: run_validation_def validate_def split: list.splits option.splits sum.splits)

lemma recipes_save:
  "instance \<in> set (recipes (save instance s)) \<and>
   (\<forall>x \<in> set (recipes (save instance s)). recipe_id x = recipe_id instance \<longrightarrow> x = instance)"
  by (auto simp: save_def image_iff)

section \<open>Lemmas: relations and the shopping list\<close>

lemma objects_objects_create:
  "objects_create model row s = (Inr x, s') \<Longrightarrow> objects model s' = objects model s @ [row]"
  by (cases model) (auto simp: objects_create_def objects_def split: if_splits)

lemma joined_rows_empty:
  "[row \<leftarrow> buylists s. fst row = user] = [] \<Longrightarrow> joined_rows user s = []"
  unfolding joined_rows_def set_empty [symmetric]
  by (auto simp: filter_empty_conv split: if_splits)

lemma concat_map_if: "concat (map (\<lambda>x. if P x then g x else []) xs) = concat (map g (filter P xs))"
  by (induction xs) auto

lemma filter_key_singleton:
  "distinct (map f xs) \<Longrightarrow> x \<in> set xs \<Longrightarrow> filter (\<lambda>y. f y = f x) xs = [x]"
proof (induction xs)
  case Nil
  then show ?case by simp
next
  case (Cons a xs)
  show ?case
  proof (cases "a = x")
    case True
    with Cons.prems have "filter (\<lambda>y. f y = f x) xs = []"
      by (auto simp: filter_empty_conv image_iff)
    with True show ?thesis by simp
  next
    case False
    with Cons.prems have "x \<in> set xs" "f a \<noteq> f x" by (auto simp: image_iff)
    with Cons show ?thesis by simp
  qed
qed

lemma filter_eq_singleton:
  "distinct xs \<Longrightarrow> filter (\<lambda>y. y = x) xs = (if x \<in> set xs then [x] else [])"
  using filter_key_singleton [of "\<lambda>y. y" xs x] by (auto simp: filter_empty_conv)

lemma joined_rows_filter:
  "joined_rows user s =
     concat (map (\<lambda>l.
       concat (map (\<lambda>r.
         concat (map (\<lambda>b.
           map (\<lambda>i. ((ingredient_name i, measurement_unit i), ir_amount l))
             (filter (\<lambda>i. ingredient_id i = ir_ingredient l) (all_ingredients s)))
           (filter (\<lambda>b. b = (user, recipe_id r)) (buylists s))))
         (filter (\<lambda>r. recipe_id r = ir_recipe l) (recipes s))))
       (ingredient_recipes s))"
proof -
  have inner: "\<And>l. concat (map (\<lambda>i. if ingredient_id i = ir_ingredient l
          then [((ingredient_name i, measurement_unit i), ir_amount l)] else []) (all_ingredients s))
        = map (\<lambda>i. ((ingredient_name i, measurement_unit i), ir_amount l))
             (filter (\<lambda>i. ingredient_id i = ir_ingredient l) (all_ingredients s))"
    by (simp add: concat_map_if)
  have cart: "\<And>r (g :: ((string \<times> string) \<times> int) list).
      concat (map (\<lambda>(u, rid). if rid = recipe_id r then if u = user then g else [] else []) (buylists s))
      = concat (map (\<lambda>b. g) (filter (\<lambda>b. b = (user, recipe_id r)) (buylists s)))"
  proof -
    fix r and g :: "((string \<times> string) \<times> int) list"
    have "(\<lambda>(u, rid). if rid = recipe_id r then if u = user then g else [] else [])
        = (\<lambda>b. if b = (user, recipe_id r) then g else [])" by (auto simp: fun_eq_iff)
    then show "concat (map (\<lambda>(u, rid). if rid = recipe_id r then if u = user then g else [] else []) (buylists s))
      = concat (map (\<lambda>b. g) (filter (\<lambda>b. b = (user, recipe_id r)) (buylists s)))"
      by (simp add: concat_map_if)
  qed
  show ?thesis
    unfolding joined_rows_def inner cart concat_map_if by simp
qed

lemma joined_rows_line:
  assumes c: "database_constraints s" and l: "l \<in> set (ingredient_recipes s)"
  shows "concat (map (\<lambda>r.
         concat (map (\<lambda>b.
           map (\<lambda>i. ((ingredient_name i, measurement_unit i), ir_amount l))
             (filter (\<lambda>i. ingredient_id i = ir_ingredient l) (all_ingredients s)))
           (filter (\<lambda>b. b = (user, recipe_id r)) (buylists s))))
         (filter (\<lambda>r. recipe_id r = ir_recipe l) (recipes s)))
       = (if (user, ir_recipe l) \<in> set (buylists s) then [(spec_group_key s l, ir_amount l)] else [])"
proof -
  from c l obtain r i where r: "r \<in> set (recipes s)" "recipe_id r = ir_recipe l"
    and i: "i \<in> set (all_ingredients s)" "ingredient_id i = ir_ingredient l"
    by (auto simp: database_constraints_def list_all_iff)
  from c have d: "distinct (map recipe_id (recipes s))"
    "distinct (map ingredient_id (all_ingredients s))" "distinct (buylists s)"
    by (simp_all add: database_constraints_def)
  from filter_key_singleton [OF d(1) r(1)] r(2)
  have fr: "filter (\<lambda>r. recipe_id r = ir_recipe l) (recipes s) = [r]" by simp
  from filter_key_singleton [OF d(2) i(1)] i(2)
  have fi: "filter (\<lambda>i. ingredient_id i = ir_ingredient l) (all_ingredients s) = [i]" by simp
  from fi have k: "spec_group_key s l = (ingredient_name i, measurement_unit i)"
    by (simp add: spec_group_key_def)
  show ?thesis
    by (simp add: fr fi k filter_eq_singleton [OF d(3)] r(2))
qed

lemma joined_rows_spec:
  assumes "database_constraints s"
  shows "joined_rows user s = map (\<lambda>l. (spec_group_key s l, ir_amount l)) (spec_cart_lines user s)"
proof -
  have "joined_rows user s =
      concat (map (\<lambda>l. if (user, ir_recipe l) \<in> set (buylists s)
                          then [(spec_group_key s l, ir_amount l)] else []) (ingredient_recipes s))"
    unfolding joined_rows_filter
    by (rule arg_cong [where f = concat], rule map_cong [OF refl]) (rule joined_rows_line [OF assms])
  also have "\<dots> = map (\<lambda>l. (spec_group_key s l, ir_amount l)) (spec_cart_lines user s)"
    by (simp add: concat_map_if spec_cart_lines_def)
  finally show ?thesis .
qed

lemma values_annotate_sum_keys:
  "distinct (map fst (values_annotate_sum rows))"
  "fst ` set (values_annotate_sum rows) = fst ` set rows"
  by (force simp: values_annotate_sum_def comp_def image_iff)+

lemma values_annotate_sum_amount:
  "(k, a) \<in> set (values_annotate_sum rows) \<Longrightarrow> a = sum_list (map snd [row \<leftarrow> rows. fst row = k])"
proof -
  have "[a'. (k', a') \<leftarrow> rows, k' = k] = map snd [row \<leftarrow> rows. fst row = k]"
    by (induction rows) auto
  moreover assume "(k, a) \<in> set (values_annotate_sum rows)"
  ultimately show ?thesis by (auto simp: values_annotate_sum_def)
qed

section \<open>Evaluation of the model on the example store\<close>

lemmas model_defs =
  create_recipe_def update_recipe_def run_validation_def field_errors_def or_default_def
  entry_rejected_def required_def amount_validators_def cooking_time_validators_def
  MaxValueValidator_def MinValueValidator_def MIN_COOKING_TIME_def MAX_COOKING_TIME_def
  MIN_AMOUNT_INGREDIENT_def MAX_AMOUNT_INGREDIENT_def validate_def recipe_exists_def
  validate_unique_for_list_def create_def update_def atomic_def rollback_def create_body_def
  update_body_def update_instance_def save_def Recipe_objects_create_def
  create_ingredients_def bulk_create_def tag_set_def Let_def tables_def recipe_tags_def
  recipe_ingredients_def every_recipe_complete_def database_constraints_def
  salt_store_def soup_attrs_def recipe_one_def

section \<open>The claims\<close>

subsection \<open>C1: the shopping list of a cart\<close>

text \<open>
  C1, as the code has it. \<^verbatim>\<open>get_ingredients_for_download\<close> returns the header line
  followed by one line per group of the query, the lines joined by a newline, each
  line the name, a space, the unit in parentheses, a space, the dash U+2014, a space
  and the decimal sum. The groups have pairwise different keys (name, unit), their
  keys are the keys of the joined rows, and the amount of a group is the sum of the
  amounts of the joined rows with that key. On a database that keeps the constraints
  of the schema the joined rows are, one for one and in order, the ingredient lines
  of the recipes in the user's cart, each with the name and unit of its ingredient.
  The header is the Russian literal of the source, not the English text of the spec:
  for the cart with Salt/g 10 and Salt/g 5 the result is that header, a newline and
  \<^verbatim>\<open>Salt (g) -- 15\<close> with the dash U+2014.
\<close>

theorem shopping_list_groups_and_sums:
  "get_ingredients_for_download user s =
     join ''\<newline>'' (header # map line (values_annotate_sum (joined_rows user s))) \<and>
   distinct (map fst (values_annotate_sum (joined_rows user s))) \<and>
   fst ` set (values_annotate_sum (joined_rows user s)) = fst ` set (joined_rows user s) \<and>
   (\<forall>(k, a) \<in> set (values_annotate_sum (joined_rows user s)).
      a = sum_list (map snd [row \<leftarrow> joined_rows user s. fst row = k])) \<and>
   (database_constraints s \<longrightarrow>
      joined_rows user s = map (\<lambda>l. (spec_group_key s l, ir_amount l)) (spec_cart_lines user s)) \<and>
   line ((name, unit), amount) =
     name @ '' ('' @ unit @ '') '' @ [CHR 0xE2, CHR 0x80, CHR 0x94] @ '' '' @ str_int amount \<and>
   get_ingredients_for_download 3 salt_store =
     header @ ''\<newline>Salt (g) '' @ [CHR 0xE2, CHR 0x80, CHR 0x94] @ '' 15''"
proof (intro conjI)
  show "get_ingredients_for_download user s =
     join ''\<newline>'' (header # map line (values_annotate_sum (joined_rows user s)))"
    by (simp add: get_ingredients_for_download_def)
  show "distinct (map fst (values_annotate_sum (joined_rows user s)))"
    by (rule values_annotate_sum_keys)
  show "fst ` set (values_annotate_sum (joined_rows user s)) = fst ` set (joined_rows user s)"
    by (rule values_annotate_sum_keys)
  show "\<forall>(k, a) \<in> set (values_annotate_sum (joined_rows user s)).
      a = sum_list (map snd [row \<leftarrow> joined_rows user s. fst row = k])"
    using values_annotate_sum_amount by fastforce
  show "database_constraints s \<longrightarrow>
      joined_rows user s = map (\<lambda>l. (spec_group_key s l, ir_amount l)) (spec_cart_lines user s)"
    using joined_rows_spec by blast
  show "line ((name, unit), amount) =
     name @ '' ('' @ unit @ '') '' @ [CHR 0xE2, CHR 0x80, CHR 0x94] @ '' '' @ str_int amount"
    by (simp add: line_def em_dash_def)
  show "get_ingredients_for_download 3 salt_store =
     header @ ''\<newline>Salt (g) '' @ [CHR 0xE2, CHR 0x80, CHR 0x94] @ '' 15''"
    by code_simp
qed

theorem shopping_list_groups_and_sums_witness:
  "database_constraints salt_store \<and>
   joined_rows 3 salt_store = [((''Salt'', ''g''), 10), ((''Salt'', ''g''), 5)] \<and>
   joined_rows 3 salt_store =
     map (\<lambda>l. (spec_group_key salt_store l, ir_amount l)) (spec_cart_lines 3 salt_store) \<and>
   values_annotate_sum (joined_rows 3 salt_store) = [((''Salt'', ''g''), 15)] \<and>
   (15 :: int) = sum_list (map snd [row \<leftarrow> joined_rows 3 salt_store. fst row = (''Salt'', ''g'')])"
proof -
  have c: "database_constraints salt_store"
    by (simp add: database_constraints_def salt_store_def recipe_one_def)
  have j: "joined_rows 3 salt_store = [((''Salt'', ''g''), 10), ((''Salt'', ''g''), 5)]"
    by (simp add: joined_rows_def salt_store_def recipe_one_def)
  have g: "values_annotate_sum (joined_rows 3 salt_store) = [((''Salt'', ''g''), 15)]"
    by (simp add: j values_annotate_sum_def)
  note gs = shopping_list_groups_and_sums [of 3 salt_store]
  from gs c have r: "joined_rows 3 salt_store =
     map (\<lambda>l. (spec_group_key salt_store l, ir_amount l)) (spec_cart_lines 3 salt_store)"
    by blast
  from gs have "\<forall>(k, a) \<in> set (values_annotate_sum (joined_rows 3 salt_store)).
      a = sum_list (map snd [row \<leftarrow> joined_rows 3 salt_store. fst row = k])"
    by blast
  with g have s: "(15 :: int) =
      sum_list (map snd [row \<leftarrow> joined_rows 3 salt_store. fst row = (''Salt'', ''g'')])"
    by fastforce
  from c j r g s show ?thesis by blast
qed

theorem shopping_list_header_counterexample:
  "get_ingredients_for_download 3 salt_store \<noteq>
     ''Shopping list:\<newline>Salt (g) '' @ [CHR 0xE2, CHR 0x80, CHR 0x94] @ '' 15''"
  by code_simp

subsection \<open>C2: a failed create or update writes nothing\<close>

text \<open>
  C2. When \<^verbatim>\<open>create_recipe\<close> fails, every table is as it was before the call: no
  recipe, ingredient line or tag row of the operation is there. When
  \<^verbatim>\<open>update_recipe\<close> fails, every table is as it was, so the stored row of the target
  recipe, its tags and its ingredient lines are unchanged. A submission that repeats
  a tag or an ingredient fails in both operations, before any write.
\<close>

theorem failed_recipe_write_persists_nothing:
  "(create_recipe user attrs s = (Inl e, s') \<longrightarrow> tables s' = tables s) \<and>
   (update_recipe user instance attrs s = (Inl e, s') \<longrightarrow>
      tables s' = tables s \<and>
      recipe_tags s' (recipe_id instance) = recipe_tags s (recipe_id instance) \<and>
      recipe_ingredients s' (recipe_id instance) = recipe_ingredients s (recipe_id instance)) \<and>
   ((\<exists>tags. a_tag attrs = Some tags \<and> \<not> distinct tags) \<or>
    (\<exists>ds. a_recipe_ingredients attrs = Some ds \<and> \<not> distinct (map d_ingredient ds)) \<longrightarrow>
      (\<exists>e. create_recipe user attrs s = (Inl e, s)) \<and>
      (\<exists>e. update_recipe user instance attrs s = (Inl e, s)))"
proof (intro conjI impI)
  assume "create_recipe user attrs s = (Inl e, s')"
  then show "tables s' = tables s" by (rule create_recipe_Inl)
next
  assume "update_recipe user instance attrs s = (Inl e, s')"
  then have t: "tables s' = tables s" by (rule update_recipe_Inl)
  then show "tables s' = tables s" .
  from t have "recipe_tag s' = recipe_tag s" "ingredient_recipes s' = ingredient_recipes s"
    by (simp_all add: tables_def)
  then show "recipe_tags s' (recipe_id instance) = recipe_tags s (recipe_id instance)"
    "recipe_ingredients s' (recipe_id instance) = recipe_ingredients s (recipe_id instance)"
    by (simp_all add: recipe_tags_def recipe_ingredients_def)
next
  assume dup: "(\<exists>tags. a_tag attrs = Some tags \<and> \<not> distinct tags) \<or>
    (\<exists>ds. a_recipe_ingredients attrs = Some ds \<and> \<not> distinct (map d_ingredient ds))"
  from validate_duplicates_rejected [OF dup] obtain e1
    where "run_validation s user ''POST'' False attrs = Inl e1" by blast
  then show "\<exists>e. create_recipe user attrs s = (Inl e, s)" by (simp add: create_recipe_def)
  from validate_duplicates_rejected [OF dup] obtain e2
    where "run_validation s user ''PATCH'' True attrs = Inl e2" by blast
  then show "\<exists>e. update_recipe user instance attrs s = (Inl e, s)" by (simp add: update_recipe_def)
qed

theorem failed_recipe_write_persists_nothing_witness:
  "update_recipe 7 recipe_one
       (soup_attrs\<lparr>a_recipe_ingredients := Some [\<lparr>d_ingredient = Some 1, d_amount = None\<rparr>]\<rparr>)
       salt_store = (Inl (KeyError ''amount''), salt_store) \<and>
   tables salt_store = tables salt_store \<and>
   recipe_tags salt_store 1 = [1] \<and> map ir_amount (recipe_ingredients salt_store 1) = [10] \<and>
   \<not> distinct [1, 1 :: nat] \<and>
   create_recipe 7 (soup_attrs\<lparr>a_tag := Some [1, 1]\<rparr>) salt_store
     = (Inl (DuplicateElement label_tags 1), salt_store) \<and>
   update_recipe 7 recipe_one (soup_attrs\<lparr>a_tag := Some [1, 1]\<rparr>) salt_store
     = (Inl (DuplicateElement label_tags 1), salt_store) \<and>
   (\<exists>r s'. update_recipe 7 recipe_one soup_attrs salt_store = (Inr r, s') \<and>
      tables s' \<noteq> tables salt_store)"
proof -
  let ?a = "soup_attrs\<lparr>a_recipe_ingredients := Some [\<lparr>d_ingredient = Some 1, d_amount = None\<rparr>]\<rparr>"
  let ?b = "soup_attrs\<lparr>a_tag := Some [1, 1]\<rparr>"
  have u: "update_recipe 7 recipe_one ?a salt_store = (Inl (KeyError ''amount''), salt_store)"
    by code_simp
  have d: "create_recipe 7 ?b salt_store = (Inl (DuplicateElement label_tags 1), salt_store)"
    "update_recipe 7 recipe_one ?b salt_store = (Inl (DuplicateElement label_tags 1), salt_store)"
    by code_simp+
  have n: "\<not> distinct [1, 1 :: nat]" by simp
  have q: "recipe_tags salt_store 1 = [1]" "map ir_amount (recipe_ingredients salt_store 1) = [10]"
    by code_simp+
  have ok: "case update_recipe 7 recipe_one soup_attrs salt_store of
              (Inr r, s') \<Rightarrow> tables s' \<noteq> tables salt_store | (Inl e, s') \<Rightarrow> False"
    by code_simp
  then have w: "\<exists>r s'. update_recipe 7 recipe_one soup_attrs salt_store = (Inr r, s') \<and>
      tables s' \<noteq> tables salt_store"
    by (auto split: prod.splits sum.splits)
  from failed_recipe_write_persists_nothing
         [of 7 ?b salt_store "DuplicateElement label_tags 1" salt_store recipe_one] d
       failed_recipe_write_persists_nothing
         [of 7 ?a salt_store "KeyError ''amount''" salt_store recipe_one] u
  have t: "tables salt_store = tables salt_store" by blast
  from u t q n d w show ?thesis by blast
qed

subsection \<open>C3: the uniqueness validator\<close>

text \<open>
  C3. \<^verbatim>\<open>validate_unique_for_list\<close> returns without error on every sequence with no
  repeated element. On a sequence with a repeated element it stops at the first
  position whose element already occurred earlier (everything before that position
  is free of repeats) and raises the duplicate error that carries the label and
  that element. The function takes and returns no store: it reads its arguments only.
\<close>

theorem validate_unique_for_list_first_repeat:
  "(distinct data \<longrightarrow> validate_unique_for_list name data = Inr ()) \<and>
   (\<not> distinct data \<longrightarrow>
      (\<exists>i < length data. distinct (take i data) \<and> data ! i \<in> set (take i data) \<and>
         validate_unique_for_list name data = Inl (DuplicateElement name (data ! i))))"
proof (intro conjI impI)
  assume "distinct data"
  then show "validate_unique_for_list name data = Inr ()"
    by (simp add: validate_unique_for_list_def unique_loop_ok)
next
  assume "\<not> distinct data"
  from not_distinct_first_repeat [OF this] obtain i where i: "i < length data"
    and d: "distinct (take i data)" and hit: "data ! i \<in> set (take i data)" by blast
  have "unique_loop name data {} = Inl (DuplicateElement name (data ! i))"
    using i d hit by (intro unique_loop_first_repeat) simp_all
  with i d hit show "\<exists>i < length data. distinct (take i data) \<and> data ! i \<in> set (take i data) \<and>
         validate_unique_for_list name data = Inl (DuplicateElement name (data ! i))"
    unfolding validate_unique_for_list_def by blast
qed

theorem validate_unique_for_list_first_repeat_witness:
  "distinct [1, 2, 3 :: nat] \<and> validate_unique_for_list ''tags'' [1, 2, 3] = Inr () \<and>
   \<not> distinct [4, 7, 5, 7, 4 :: nat] \<and>
   validate_unique_for_list ''tags'' [4, 7, 5, 7, 4] = Inl (DuplicateElement ''tags'' 7)"
  using validate_unique_for_list_first_repeat [of "[1, 2, 3]" "''tags''"]
    validate_unique_for_list_first_repeat [of "[4, 7, 5, 7, 4]" "''tags''"]
  by (simp add: validate_unique_for_list_def)

subsection \<open>C4: the name and tag conflict check\<close>

text \<open>
  C4, as the code has it. \<^verbatim>\<open>create_recipe\<close> fails with the conflict error exactly
  when the submission passes the field validation, its list of ingredients is not
  empty, and the same author already has a stored recipe with the same name that
  shares a tag with the submission. The check for an empty ingredient list comes
  before the conflict query, so a conflicting submission with no ingredient fails
  with the error of that check instead. \<^verbatim>\<open>update_recipe\<close> never fails with the
  conflict error, and its validation does not read the store.
\<close>

theorem conflict_check_on_create_only:
  "(fst (create_recipe user attrs s) = Inl RecipeConflict \<longleftrightarrow>
      field_errors False attrs = [] \<and> a_recipe_ingredients attrs \<noteq> Some [] \<and>
      (\<exists>r \<in> set (recipes s). Some (recipe_name r) = a_name attrs \<and> recipe_author r = user \<and>
         (\<exists>t \<in> set (or_default (a_tag attrs) []). (recipe_id r, t) \<in> set (recipe_tag s)))) \<and>
   fst (update_recipe user instance attrs s) \<noteq> Inl RecipeConflict \<and>
   run_validation s user ''PATCH'' True attrs = run_validation s0 user ''PATCH'' True attrs"
proof (intro conjI)
  show "fst (create_recipe user attrs s) = Inl RecipeConflict \<longleftrightarrow>
      field_errors False attrs = [] \<and> a_recipe_ingredients attrs \<noteq> Some [] \<and>
      (\<exists>r \<in> set (recipes s). Some (recipe_name r) = a_name attrs \<and> recipe_author r = user \<and>
         (\<exists>t \<in> set (or_default (a_tag attrs) []). (recipe_id r, t) \<in> set (recipe_tag s)))"
  proof (cases "field_errors False attrs = []")
    case False
    then show ?thesis by (simp add: create_recipe_conflict_iff)
  next
    case True
    from field_errors_full [OF True] obtain name tags ds where
      "a_name attrs = Some name" "a_tag attrs = Some tags" "a_recipe_ingredients attrs = Some ds"
      "\<forall>d \<in> set ds. d_ingredient d \<noteq> None" by blast
    with True show ?thesis
      unfolding create_recipe_conflict_iff validate_conflict_iff recipe_exists_iff
      by (auto simp: or_default_def)
  qed
  show "fst (update_recipe user instance attrs s) \<noteq> Inl RecipeConflict"
    by (rule update_recipe_no_conflict)
  show "run_validation s user ''PATCH'' True attrs = run_validation s0 user ''PATCH'' True attrs"
    by (rule validate_patch_store_independent)
qed

theorem conflict_check_on_create_only_witness:
  "fst (create_recipe 7 (soup_attrs\<lparr>a_name := Some ''R1''\<rparr>) salt_store) = Inl RecipeConflict \<and>
   fst (create_recipe 8 (soup_attrs\<lparr>a_name := Some ''R1''\<rparr>) salt_store) \<noteq> Inl RecipeConflict \<and>
   fst (create_recipe 7 (soup_attrs\<lparr>a_name := Some ''R1'', a_text := None\<rparr>) salt_store)
     \<noteq> Inl RecipeConflict \<and>
   fst (update_recipe 7 recipe_one (soup_attrs\<lparr>a_name := Some ''R1''\<rparr>) salt_store)
     \<noteq> Inl RecipeConflict"
  using conflict_check_on_create_only [of 7 "soup_attrs\<lparr>a_name := Some ''R1''\<rparr>" salt_store recipe_one salt_store]
    conflict_check_on_create_only [of 8 "soup_attrs\<lparr>a_name := Some ''R1''\<rparr>" salt_store recipe_one salt_store]
    conflict_check_on_create_only
      [of 7 "soup_attrs\<lparr>a_name := Some ''R1'', a_text := None\<rparr>" salt_store recipe_one salt_store]
  by (simp add: soup_attrs_def salt_store_def recipe_one_def field_errors_def or_default_def
      entry_rejected_def required_def amount_validators_iff cooking_time_validators_iff)

theorem conflict_check_counterexample:
  "field_errors False (soup_attrs\<lparr>a_name := Some ''R1'', a_recipe_ingredients := Some []\<rparr>) = [] \<and>
   recipe_exists salt_store ''R1'' 7 [1, 2] \<and>
   create_recipe 7 (soup_attrs\<lparr>a_name := Some ''R1'', a_recipe_ingredients := Some []\<rparr>) salt_store
     = (Inl EmptyIngredients, salt_store)"
  by (simp add: model_defs)

subsection \<open>C5: the checks of a subscription\<close>

text \<open>
  C5. On every store that holds no subscription of a user to themselves,
  \<^verbatim>\<open>SubscriptionSerializer.validate\<close> returns what the validation of the spec
  returns, which rejects user = author first and then checks for an existing (user,
  author) subscription: the source makes the two tests in the other order, and their
  results differ only when a self-subscription is already stored. On such a store
  subscribing to oneself fails with the self-subscription error and leaves the store
  as it was, so no subscription row is created. A subscription never stores a
  self-subscription: the store after \<^verbatim>\<open>subscribe\<close> again holds none.
\<close>

theorem subscription_validate_self_first:
  assumes "no_self_subscription s"
  shows "subscription_validate user author s = spec_validate_subscription user author s \<and>
         subscription_validate user user s = Inl SelfSubscription \<and>
         subscribe user user s = (Inl SelfSubscription, s) \<and>
         no_self_subscription (snd (subscribe user author s))"
proof -
  from assms have n: "[row \<leftarrow> subscriptions s. row = (user, user)] = []"
    by (auto simp: no_self_subscription_def filter_empty_conv)
  then have v: "subscription_validate user user s = Inl SelfSubscription"
    by (simp add: subscription_validate_def)
  have e: "subscription_validate user author s = spec_validate_subscription user author s"
    using n by (auto simp: subscription_validate_def spec_validate_subscription_def)
  have k: "no_self_subscription (snd (subscribe user author s))"
    using assms
    by (auto simp: subscribe_def subscription_validate_def subscription_create_def
        no_self_subscription_def filter_empty_conv)
  from e v k show ?thesis by (simp add: subscribe_def)
qed

theorem subscription_validate_self_first_witness:
  "no_self_subscription (salt_store\<lparr>subscriptions := [(3, 7)]\<rparr>) \<and>
   subscription_validate 3 3 (salt_store\<lparr>subscriptions := [(3, 7)]\<rparr>) = Inl SelfSubscription \<and>
   subscription_validate 3 7 (salt_store\<lparr>subscriptions := [(3, 7)]\<rparr>) = Inl (AlreadySubscribed 7) \<and>
   spec_validate_subscription 3 7 (salt_store\<lparr>subscriptions := [(3, 7)]\<rparr>)
     = Inl (AlreadySubscribed 7) \<and>
   subscribe 3 3 (salt_store\<lparr>subscriptions := [(3, 7)]\<rparr>)
     = (Inl SelfSubscription, salt_store\<lparr>subscriptions := [(3, 7)]\<rparr>) \<and>
   subscribe 4 7 (salt_store\<lparr>subscriptions := [(3, 7)]\<rparr>)
     = (Inr 7, salt_store\<lparr>subscriptions := [(3, 7), (4, 7)]\<rparr>) \<and>
   no_self_subscription (salt_store\<lparr>subscriptions := [(3, 7), (4, 7)]\<rparr>)"
proof -
  let ?s = "salt_store\<lparr>subscriptions := [(3, 7)]\<rparr>"
  have h: "no_self_subscription ?s" by (simp add: no_self_subscription_def)
  have a: "subscription_validate 3 7 ?s = Inl (AlreadySubscribed 7)"
    by (simp add: subscription_validate_def)
  have b: "subscribe 4 7 ?s = (Inr 7, salt_store\<lparr>subscriptions := [(3, 7), (4, 7)]\<rparr>)"
    by (simp add: subscribe_def subscription_validate_def subscription_create_def)
  from subscription_validate_self_first [OF h, of 3 7] a
  have c: "spec_validate_subscription 3 7 ?s = Inl (AlreadySubscribed 7)" by simp
  from subscription_validate_self_first [OF h, of 3 7]
  have d: "subscription_validate 3 3 ?s = Inl SelfSubscription"
    "subscribe 3 3 ?s = (Inl SelfSubscription, ?s)" by simp_all
  from subscription_validate_self_first [OF h, of 4 7] b
  have e: "no_self_subscription (salt_store\<lparr>subscriptions := [(3, 7), (4, 7)]\<rparr>)" by simp
  from h a b c d e show ?thesis by blast
qed

subsection \<open>C6: inclusive numeric bounds\<close>

text \<open>
  C6. The validators of \<^verbatim>\<open>cooking_time\<close> accept exactly the values from 1 to 1000,
  those of \<^verbatim>\<open>amount\<close> exactly the values from 1 to 3000, both ends included. Creating
  a recipe with a cooking time outside its range, or with an ingredient line whose
  amount is outside its range, fails in the field validation, names the field and
  writes nothing; with the rest of the submission valid, every value inside the range
  is accepted and stored. In particular 0 and 1001 fail and 1 and 1000 succeed for
  the cooking time, 0 and 3001 fail and 1 and 3000 succeed for the amount.
\<close>

theorem numeric_bounds_inclusive:
  "(cooking_time_validators v \<longleftrightarrow> 1 \<le> v \<and> v \<le> 1000) \<and>
   (amount_validators a \<longleftrightarrow> 1 \<le> a \<and> a \<le> 3000) \<and>
   (\<not> (1 \<le> v \<and> v \<le> 1000) \<longrightarrow>
      (\<exists>fs. create_recipe user (attrs\<lparr>a_cooking_time := Some v\<rparr>) s = (Inl (FieldsInvalid fs), s) \<and>
            ''cooking_time'' \<in> set fs)) \<and>
   (\<not> (1 \<le> a \<and> a \<le> 3000) \<longrightarrow>
      (\<exists>fs. create_recipe user
              (attrs\<lparr>a_recipe_ingredients :=
                 Some (ds @ [\<lparr>d_ingredient = i, d_amount = Some a\<rparr>] @ ds')\<rparr>) s
              = (Inl (FieldsInvalid fs), s) \<and>
            ''ingredients'' \<in> set fs)) \<and>
   (1 \<le> v \<and> v \<le> 1000 \<longrightarrow>
      (\<exists>r s'. create_recipe 7 (soup_attrs\<lparr>a_cooking_time := Some v\<rparr>) salt_store = (Inr r, s') \<and>
              recipe_cooking_time r = v)) \<and>
   (1 \<le> a \<and> a \<le> 3000 \<longrightarrow>
      (\<exists>r s'. create_recipe 7
                (soup_attrs\<lparr>a_recipe_ingredients := Some [\<lparr>d_ingredient = Some 1, d_amount = Some a\<rparr>]\<rparr>)
                salt_store = (Inr r, s') \<and>
              map ir_amount (recipe_ingredients s' (recipe_id r)) = [a]))"
proof (intro conjI impI)
  show "cooking_time_validators v \<longleftrightarrow> 1 \<le> v \<and> v \<le> 1000"
    by (rule cooking_time_validators_iff)
  show "amount_validators a \<longleftrightarrow> 1 \<le> a \<and> a \<le> 3000"
    by (rule amount_validators_iff)
next
  assume out: "\<not> (1 \<le> v \<and> v \<le> 1000)"
  let ?attrs = "attrs\<lparr>a_cooking_time := Some v\<rparr>"
  from out have m: "''cooking_time'' \<in> set (field_errors False ?attrs)"
    by (auto simp: field_errors_def cooking_time_validators_iff)
  then have "field_errors False ?attrs \<noteq> []" by auto
  from create_recipe_field_errors [OF this] m
  show "\<exists>fs. create_recipe user ?attrs s = (Inl (FieldsInvalid fs), s) \<and> ''cooking_time'' \<in> set fs"
    by blast
next
  assume out: "\<not> (1 \<le> a \<and> a \<le> 3000)"
  let ?attrs = "attrs\<lparr>a_recipe_ingredients := Some (ds @ [\<lparr>d_ingredient = i, d_amount = Some a\<rparr>] @ ds')\<rparr>"
  from out have "entry_rejected False \<lparr>d_ingredient = i, d_amount = Some a\<rparr>"
    by (simp add: entry_rejected_def amount_validators_iff)
  then have m: "''ingredients'' \<in> set (field_errors False ?attrs)"
    by (simp add: field_errors_def)
  then have "field_errors False ?attrs \<noteq> []" by auto
  from create_recipe_field_errors [OF this] m
  show "\<exists>fs. create_recipe user ?attrs s = (Inl (FieldsInvalid fs), s) \<and> ''ingredients'' \<in> set fs"
    by blast
next
  assume "1 \<le> v \<and> v \<le> 1000"
  then show "\<exists>r s'. create_recipe 7 (soup_attrs\<lparr>a_cooking_time := Some v\<rparr>) salt_store = (Inr r, s') \<and>
              recipe_cooking_time r = v"
    using soup_cooking_time by blast
next
  assume "1 \<le> a \<and> a \<le> 3000"
  then show "\<exists>r s'. create_recipe 7
                (soup_attrs\<lparr>a_recipe_ingredients := Some [\<lparr>d_ingredient = Some 1, d_amount = Some a\<rparr>]\<rparr>)
                salt_store = (Inr r, s') \<and>
              map ir_amount (recipe_ingredients s' (recipe_id r)) = [a]"
    using soup_amount by blast
qed

theorem numeric_bounds_inclusive_witness:
  "\<not> cooking_time_validators 0 \<and> \<not> cooking_time_validators 1001 \<and>
   cooking_time_validators 1 \<and> cooking_time_validators 1000 \<and>
   \<not> amount_validators 0 \<and> \<not> amount_validators 3001 \<and>
   amount_validators 1 \<and> amount_validators 3000 \<and>
   fst (create_recipe 7 (soup_attrs\<lparr>a_cooking_time := Some 0\<rparr>) salt_store)
     = Inl (FieldsInvalid [''cooking_time'']) \<and>
   fst (create_recipe 7 (soup_attrs\<lparr>a_cooking_time := Some 1001\<rparr>) salt_store)
     = Inl (FieldsInvalid [''cooking_time'']) \<and>
   fst (create_recipe 7
         (soup_attrs\<lparr>a_recipe_ingredients := Some [\<lparr>d_ingredient = Some 1, d_amount = Some 0\<rparr>]\<rparr>)
         salt_store) = Inl (FieldsInvalid [''ingredients'']) \<and>
   fst (create_recipe 7
         (soup_attrs\<lparr>a_recipe_ingredients := Some [\<lparr>d_ingredient = Some 1, d_amount = Some 3001\<rparr>]\<rparr>)
         salt_store) = Inl (FieldsInvalid [''ingredients'']) \<and>
   (\<exists>r s'. create_recipe 7 (soup_attrs\<lparr>a_cooking_time := Some 1\<rparr>) salt_store = (Inr r, s') \<and>
           recipe_cooking_time r = 1) \<and>
   (\<exists>r s'. create_recipe 7 (soup_attrs\<lparr>a_cooking_time := Some 1000\<rparr>) salt_store = (Inr r, s') \<and>
           recipe_cooking_time r = 1000) \<and>
   (\<exists>r s'. create_recipe 7
             (soup_attrs\<lparr>a_recipe_ingredients := Some [\<lparr>d_ingredient = Some 1, d_amount = Some 1\<rparr>]\<rparr>)
             salt_store = (Inr r, s') \<and>
           map ir_amount (recipe_ingredients s' (recipe_id r)) = [1]) \<and>
   (\<exists>r s'. create_recipe 7
             (soup_attrs\<lparr>a_recipe_ingredients := Some [\<lparr>d_ingredient = Some 1, d_amount = Some 3000\<rparr>]\<rparr>)
             salt_store = (Inr r, s') \<and>
           map ir_amount (recipe_ingredients s' (recipe_id r)) = [3000])"
proof -
  have f: "fst (create_recipe 7 (soup_attrs\<lparr>a_cooking_time := Some 0\<rparr>) salt_store)
             = Inl (FieldsInvalid [''cooking_time''])"
    "fst (create_recipe 7 (soup_attrs\<lparr>a_cooking_time := Some 1001\<rparr>) salt_store)
             = Inl (FieldsInvalid [''cooking_time''])"
    "fst (create_recipe 7
         (soup_attrs\<lparr>a_recipe_ingredients := Some [\<lparr>d_ingredient = Some 1, d_amount = Some 0\<rparr>]\<rparr>)
         salt_store) = Inl (FieldsInvalid [''ingredients''])"
    "fst (create_recipe 7
         (soup_attrs\<lparr>a_recipe_ingredients := Some [\<lparr>d_ingredient = Some 1, d_amount = Some 3001\<rparr>]\<rparr>)
         salt_store) = Inl (FieldsInvalid [''ingredients''])"
    by (simp_all add: model_defs)
  from numeric_bounds_inclusive [of 0 0 7 soup_attrs salt_store "[]" "Some 1" "[]"]
    numeric_bounds_inclusive [of 1001 3001 7 soup_attrs salt_store "[]" "Some 1" "[]"]
    numeric_bounds_inclusive [of 1 1 7 soup_attrs salt_store "[]" "Some 1" "[]"]
    numeric_bounds_inclusive [of 1000 3000 7 soup_attrs salt_store "[]" "Some 1" "[]"] f
  show ?thesis by simp
qed

subsection \<open>C7: a recipe keeps a tag and an ingredient line\<close>

text \<open>
  C7. After a successful \<^verbatim>\<open>create_recipe\<close> or \<^verbatim>\<open>update_recipe\<close> the resulting recipe
  has at least one tag and at least one ingredient line, and when every stored recipe
  had a tag and an ingredient line before the call, every stored recipe has them
  after it. A submission whose tag list or ingredient list is empty or absent is
  rejected by both operations with the store untouched.
\<close>

theorem recipes_stay_complete:
  "(create_recipe user attrs s = (Inr r, s') \<longrightarrow>
      recipe_tags s' (recipe_id r) \<noteq> [] \<and> recipe_ingredients s' (recipe_id r) \<noteq> [] \<and>
      (every_recipe_complete s \<longrightarrow> every_recipe_complete s')) \<and>
   (update_recipe user instance attrs s = (Inr r, s') \<longrightarrow>
      recipe_tags s' (recipe_id r) \<noteq> [] \<and> recipe_ingredients s' (recipe_id r) \<noteq> [] \<and>
      (every_recipe_complete s \<longrightarrow> every_recipe_complete s')) \<and>
   (a_tag attrs = None \<or> a_tag attrs = Some [] \<or>
    a_recipe_ingredients attrs = None \<or> a_recipe_ingredients attrs = Some [] \<longrightarrow>
      (\<exists>e. create_recipe user attrs s = (Inl e, s)) \<and>
      (\<exists>e. update_recipe user instance attrs s = (Inl e, s)))"
proof (intro conjI impI)
  assume c: "create_recipe user attrs s = (Inr r, s')"
  from create_recipe_complete(1) [OF c]
  show "recipe_tags s' (recipe_id r) \<noteq> []" "recipe_ingredients s' (recipe_id r) \<noteq> []"
    by simp_all
  assume "every_recipe_complete s"
  with c show "every_recipe_complete s'" by (rule create_recipe_complete(2))
next
  assume u: "update_recipe user instance attrs s = (Inr r, s')"
  from update_recipe_complete(1) [OF u]
  show "recipe_tags s' (recipe_id r) \<noteq> []" "recipe_ingredients s' (recipe_id r) \<noteq> []"
    by simp_all
  assume "every_recipe_complete s"
  with u show "every_recipe_complete s'" by (rule update_recipe_complete(2))
next
  assume empty: "a_tag attrs = None \<or> a_tag attrs = Some [] \<or>
    a_recipe_ingredients attrs = None \<or> a_recipe_ingredients attrs = Some []"
  from validate_empty_rejected [OF empty] obtain e1
    where "run_validation s user ''POST'' False attrs = Inl e1" by blast
  then show "\<exists>e. create_recipe user attrs s = (Inl e, s)" by (simp add: create_recipe_def)
  from validate_empty_rejected [OF empty] obtain e2
    where "run_validation s user ''PATCH'' True attrs = Inl e2" by blast
  then show "\<exists>e. update_recipe user instance attrs s = (Inl e, s)" by (simp add: update_recipe_def)
qed

theorem recipes_stay_complete_witness:
  "every_recipe_complete salt_store \<and>
   (\<exists>r s'. create_recipe 7 soup_attrs salt_store = (Inr r, s') \<and>
      recipe_tags s' (recipe_id r) \<noteq> [] \<and> recipe_ingredients s' (recipe_id r) \<noteq> [] \<and>
      every_recipe_complete s') \<and>
   (\<exists>r s'. update_recipe 7 recipe_one soup_attrs salt_store = (Inr r, s') \<and>
      recipe_tags s' (recipe_id r) \<noteq> [] \<and> recipe_ingredients s' (recipe_id r) \<noteq> [] \<and>
      every_recipe_complete s') \<and>
   create_recipe 7 (soup_attrs\<lparr>a_tag := Some []\<rparr>) salt_store = (Inl EmptyTags, salt_store) \<and>
   update_recipe 7 recipe_one (soup_attrs\<lparr>a_recipe_ingredients := Some []\<rparr>) salt_store
     = (Inl EmptyIngredients, salt_store)"
proof -
  have inv: "every_recipe_complete salt_store"
    by (simp add: every_recipe_complete_def recipe_tags_def recipe_ingredients_def
        salt_store_def recipe_one_def)
  obtain r1 s1 where c: "create_recipe 7 soup_attrs salt_store = (Inr r1, s1)"
    by (simp add: model_defs)
  obtain r2 s2 where u: "update_recipe 7 recipe_one soup_attrs salt_store = (Inr r2, s2)"
    by (simp add: model_defs)
  have e: "create_recipe 7 (soup_attrs\<lparr>a_tag := Some []\<rparr>) salt_store = (Inl EmptyTags, salt_store)"
    "update_recipe 7 recipe_one (soup_attrs\<lparr>a_recipe_ingredients := Some []\<rparr>) salt_store
       = (Inl EmptyIngredients, salt_store)"
    by (simp_all add: model_defs)
  from recipes_stay_complete [of 7 soup_attrs salt_store r1 s1 recipe_one] c inv
  have 1: "\<exists>r s'. create_recipe 7 soup_attrs salt_store = (Inr r, s') \<and>
      recipe_tags s' (recipe_id r) \<noteq> [] \<and> recipe_ingredients s' (recipe_id r) \<noteq> [] \<and>
      every_recipe_complete s'" by blast
  from recipes_stay_complete [of 7 soup_attrs salt_store r2 s2 recipe_one] u inv
  have 2: "\<exists>r s'. update_recipe 7 recipe_one soup_attrs salt_store = (Inr r, s') \<and>
      recipe_tags s' (recipe_id r) \<noteq> [] \<and> recipe_ingredients s' (recipe_id r) \<noteq> [] \<and>
      every_recipe_complete s'" by blast
  from inv 1 2 e show ?thesis by blast
qed

subsection \<open>C8: a recipe is added to a relation once\<close>

text \<open>
  C8. When a user has added a recipe to the favorites, or to the cart, a second call
  for the same user and recipe fails with the conflict error and leaves the store as
  it was, and the table of the relation holds exactly one row of that (user, recipe)
  pair.
\<close>

theorem add_recipe_twice:
  assumes "add_recipe model user rid s = (Inr row, s')"
  shows "add_recipe model user rid s' = (Inl (AlreadyAdded model), s') \<and>
         length [x \<leftarrow> objects model s'. x = (user, rid)] = 1"
proof -
  from assms have fresh: "[x \<leftarrow> objects model s. x = (user, rid)] = []"
    and c: "add_recipe_create model user rid s = (Inr row, s')"
    by (auto simp: add_recipe_def add_recipe_validate_def split: if_splits)
  from c obtain r rs where f: "[r \<leftarrow> recipes s. recipe_id r = rid] = r # rs"
    and oc: "objects_create model (user, recipe_id r) s = (Inr row, s')"
    by (auto simp: add_recipe_create_def split: list.splits)
  from f have "r \<in> set [r \<leftarrow> recipes s. recipe_id r = rid]" by simp
  then have "recipe_id r = rid" by simp
  with objects_objects_create [OF oc] have "objects model s' = objects model s @ [(user, rid)]"
    by simp
  with fresh show ?thesis
    by (simp add: add_recipe_def add_recipe_validate_def)
qed

theorem add_recipe_twice_witness:
  "add_recipe Favorite 3 1 salt_store = (Inr (3, 1), salt_store\<lparr>favorites := [(3, 1)]\<rparr>) \<and>
   add_recipe Favorite 3 1 (salt_store\<lparr>favorites := [(3, 1)]\<rparr>)
     = (Inl (AlreadyAdded Favorite), salt_store\<lparr>favorites := [(3, 1)]\<rparr>) \<and>
   length [x \<leftarrow> objects Favorite (salt_store\<lparr>favorites := [(3, 1)]\<rparr>). x = (3, 1)] = 1 \<and>
   add_recipe BuyList 4 2 salt_store
     = (Inr (4, 2), salt_store\<lparr>buylists := [(3, 1), (3, 2), (4, 2)]\<rparr>) \<and>
   add_recipe BuyList 4 2 (salt_store\<lparr>buylists := [(3, 1), (3, 2), (4, 2)]\<rparr>)
     = (Inl (AlreadyAdded BuyList), salt_store\<lparr>buylists := [(3, 1), (3, 2), (4, 2)]\<rparr>) \<and>
   length [x \<leftarrow> objects BuyList (salt_store\<lparr>buylists := [(3, 1), (3, 2), (4, 2)]\<rparr>). x = (4, 2)] = 1"
proof -
  have f: "add_recipe Favorite 3 1 salt_store = (Inr (3, 1), salt_store\<lparr>favorites := [(3, 1)]\<rparr>)"
    by (simp add: add_recipe_def add_recipe_validate_def add_recipe_create_def objects_create_def
        objects_def salt_store_def recipe_one_def)
  have b: "add_recipe BuyList 4 2 salt_store
             = (Inr (4, 2), salt_store\<lparr>buylists := [(3, 1), (3, 2), (4, 2)]\<rparr>)"
    by (simp add: add_recipe_def add_recipe_validate_def add_recipe_create_def objects_create_def
        objects_def salt_store_def recipe_one_def)
  from add_recipe_twice [OF f] add_recipe_twice [OF b] f b show ?thesis by simp
qed

subsection \<open>C9: the shopping list of an empty cart\<close>

text \<open>
  C9, as the code has it. For a user with no row in the cart table
  \<^verbatim>\<open>get_ingredients_for_download\<close> returns the header line alone, with no newline
  after it. The header is the Russian literal of the source, not the English text
  of the spec.
\<close>

theorem empty_cart_header_only:
  "[row \<leftarrow> buylists s. fst row = user] = [] \<Longrightarrow> get_ingredients_for_download user s = header"
  by (simp add: get_ingredients_for_download_def joined_rows_empty values_annotate_sum_def)

theorem empty_cart_header_only_witness:
  "[row \<leftarrow> buylists salt_store. fst row = 4] = [] \<and>
   get_ingredients_for_download 4 salt_store = header"
proof -
  have h: "[row \<leftarrow> buylists salt_store. fst row = 4] = []" by (simp add: salt_store_def)
  from empty_cart_header_only [OF h] h show ?thesis by simp
qed

theorem empty_cart_counterexample:
  "[row \<leftarrow> buylists salt_store. fst row = 4] = [] \<and>
   get_ingredients_for_download 4 salt_store \<noteq> ''Shopping list:''"
  by (simp add: get_ingredients_for_download_def joined_rows_def values_annotate_sum_def
      salt_store_def header_def)

subsection \<open>C10: an update keeps the scalars it is not given\<close>

text \<open>
  C10. After a successful \<^verbatim>\<open>update\<close> each of the scalars name, text, cooking time and
  image has the submitted value when the validated submission carries the key, and
  the value of the instance when it does not; the primary key and the author are
  those of the instance. The resulting recipe is stored, and it is the only stored
  row with its primary key.
\<close>

theorem update_keeps_absent_scalars:
  assumes "update instance validated_data s = (Inr r, s')"
  shows "recipe_name r = (case a_name validated_data of None \<Rightarrow> recipe_name instance | Some v \<Rightarrow> v) \<and>
         recipe_text r = (case a_text validated_data of None \<Rightarrow> recipe_text instance | Some v \<Rightarrow> v) \<and>
         recipe_cooking_time r =
           (case a_cooking_time validated_data of None \<Rightarrow> recipe_cooking_time instance | Some v \<Rightarrow> v) \<and>
         recipe_image r = (case a_image validated_data of None \<Rightarrow> recipe_image instance | Some v \<Rightarrow> v) \<and>
         recipe_id r = recipe_id instance \<and> recipe_author r = recipe_author instance \<and>
         r \<in> set (recipes s') \<and>
         (\<forall>x \<in> set (recipes s'). recipe_id x = recipe_id instance \<longrightarrow> x = r)"
proof -
  from assms have "update_body instance validated_data s = (Inr r, s')"
    by (simp add: update_def atomic_Inr)
  from update_body_Inr [OF this] have r: "r = update_instance instance validated_data"
    and rs: "recipes s' = recipes (save r s)" by auto
  from r have id: "recipe_id r = recipe_id instance" by (simp add: update_instance_def)
  from r id rs recipes_save [of r s] show ?thesis
    by (auto simp: update_instance_def or_default_def split: option.splits)
qed

theorem update_keeps_absent_scalars_witness:
  "\<exists>r s'. update recipe_one
            (soup_attrs\<lparr>a_name := None, a_text := Some ''stir'', a_cooking_time := None,
                        a_image := None\<rparr>) salt_store = (Inr r, s') \<and>
     recipe_name r = ''R1'' \<and> recipe_text r = ''stir'' \<and> recipe_cooking_time r = 5 \<and>
     recipe_image r = ''r1.png'' \<and> r \<in> set (recipes s')"
proof -
  let ?vd = "soup_attrs\<lparr>a_name := None, a_text := Some ''stir'', a_cooking_time := None,
                        a_image := None\<rparr>"
  obtain r s' where h: "update recipe_one ?vd salt_store = (Inr r, s')"
    by (simp add: model_defs)
  from update_keeps_absent_scalars [OF h]
  have "recipe_name r = ''R1'' \<and> recipe_text r = ''stir'' \<and> recipe_cooking_time r = 5 \<and>
     recipe_image r = ''r1.png'' \<and> r \<in> set (recipes s')"
    by (simp add: soup_attrs_def recipe_one_def)
  with h show ?thesis by blast
qed

end
